theory Spec2Isabelle
  imports Complex_Main "HOL-Library.Word"
begin

unbundle bit_operations_syntax

section \<open>Protocol (protocol.h, protocol.c)\<close>

type_synonym uint8_t = "8 word"
type_synonym uint32_t = "32 word"
type_synonym uint64_t = "64 word"
type_synonym size_t = "64 word"
type_synonym ssize_t = "64 word"

text \<open>The \<open>MessageType\<close> and \<open>MessageFlags\<close> enumerators, as the values stored in
  the \<open>uint32_t\<close> header fields.\<close>

definition MSG_TYPE_TEXT :: uint32_t where "MSG_TYPE_TEXT = 0x01"
definition MSG_TYPE_ACK :: uint32_t where "MSG_TYPE_ACK = 0x03"
definition MSG_TYPE_ERROR :: uint32_t where "MSG_TYPE_ERROR = 0x04"
definition MSG_FLAGS_NONE :: uint32_t where "MSG_FLAGS_NONE = 0x00"

text \<open>\<open>MessageHeader\<close>: the packed struct of \<open>type\<close>, \<open>length\<close> and \<open>flags\<close>.\<close>

record MessageHeader =
  h_type :: uint32_t
  h_length :: uint64_t
  h_flags :: uint32_t

text \<open>\<open>Message\<close>: the payload pointer is \<open>None\<close> for \<open>NULL\<close> and \<open>Some bs\<close> for a
  heap buffer holding the bytes \<open>bs\<close>.\<close>

record Message =
  header :: MessageHeader
  payload :: "uint8_t list option"
  payload_size :: size_t

subsection \<open>Byte order\<close>

text \<open>\<open>htonl\<close>, \<open>ntohl\<close>, \<open>htobe64\<close> and \<open>be64toh\<close> are the C library's: the identity on
  a big-endian host and a byte swap on a little-endian one. The swaps are written with
  the masks and shifts of the library's \<open>bswap\<close> macros.\<close>

datatype endianness = LittleEndian | BigEndian

definition bswap_32 :: "uint32_t \<Rightarrow> uint32_t" where
  "bswap_32 x =
     drop_bit 24 (x AND 0xff000000) OR drop_bit 8 (x AND 0x00ff0000)
     OR push_bit 8 (x AND 0x0000ff00) OR push_bit 24 (x AND 0x000000ff)"

definition bswap_64 :: "uint64_t \<Rightarrow> uint64_t" where
  "bswap_64 x =
     drop_bit 56 (x AND 0xff00000000000000) OR drop_bit 40 (x AND 0x00ff000000000000)
     OR drop_bit 24 (x AND 0x0000ff0000000000) OR drop_bit 8 (x AND 0x000000ff00000000)
     OR push_bit 8 (x AND 0x00000000ff000000) OR push_bit 24 (x AND 0x0000000000ff0000)
     OR push_bit 40 (x AND 0x000000000000ff00) OR push_bit 56 (x AND 0x00000000000000ff)"

definition htonl :: "endianness \<Rightarrow> uint32_t \<Rightarrow> uint32_t" where
  "htonl e x = (case e of LittleEndian \<Rightarrow> bswap_32 x | BigEndian \<Rightarrow> x)"

definition ntohl :: "endianness \<Rightarrow> uint32_t \<Rightarrow> uint32_t" where
  "ntohl e x = (case e of LittleEndian \<Rightarrow> bswap_32 x | BigEndian \<Rightarrow> x)"

definition htobe64 :: "endianness \<Rightarrow> uint64_t \<Rightarrow> uint64_t" where
  "htobe64 e x = (case e of LittleEndian \<Rightarrow> bswap_64 x | BigEndian \<Rightarrow> x)"

definition be64toh :: "endianness \<Rightarrow> uint64_t \<Rightarrow> uint64_t" where
  "be64toh e x = (case e of LittleEndian \<Rightarrow> bswap_64 x | BigEndian \<Rightarrow> x)"

text \<open>\<open>message_header_serialize\<close> and \<open>message_header_deserialize\<close> rewrite the three
  fields of the header in place; the model returns the rewritten header.\<close>

definition message_header_serialize :: "endianness \<Rightarrow> MessageHeader \<Rightarrow> MessageHeader" where
  "message_header_serialize e hd0 =
     (let hd1 = hd0\<lparr>h_type := htonl e (h_type hd0)\<rparr>;
          hd2 = hd1\<lparr>h_length := htobe64 e (h_length hd1)\<rparr>;
          hd3 = hd2\<lparr>h_flags := htonl e (h_flags hd2)\<rparr>
      in hd3)"

definition message_header_deserialize :: "endianness \<Rightarrow> MessageHeader \<Rightarrow> MessageHeader" where
  "message_header_deserialize e hd0 =
     (let hd1 = hd0\<lparr>h_type := ntohl e (h_type hd0)\<rparr>;
          hd2 = hd1\<lparr>h_length := be64toh e (h_length hd1)\<rparr>;
          hd3 = hd2\<lparr>h_flags := ntohl e (h_flags hd2)\<rparr>
      in hd3)"

subsection \<open>Constructors\<close>

text \<open>\<open>malloc\<close> is the environment's: \<open>alloc n\<close> tells whether a request for \<open>n\<close>
  bytes succeeds. \<open>memcpy\<close> copies the first \<open>text_len\<close> bytes of the source buffer.\<close>

type_synonym allocator = "size_t \<Rightarrow> bool"

definition message_create_text :: "allocator \<Rightarrow> uint8_t list \<Rightarrow> size_t \<Rightarrow> Message" where
  "message_create_text alloc text text_len =
     (let hd = \<lparr>h_type = MSG_TYPE_TEXT, h_length = text_len, h_flags = MSG_FLAGS_NONE\<rparr>
      in if text_len > 0 then
           (if \<not> alloc text_len
            then \<lparr>header = hd, payload = None, payload_size = 0\<rparr>
            else \<lparr>header = hd, payload = Some (take (unat text_len) text),
                   payload_size = text_len\<rparr>)
         else \<lparr>header = hd, payload = None, payload_size = 0\<rparr>)"

definition message_create_ack :: Message where
  "message_create_ack =
     \<lparr>header = \<lparr>h_type = MSG_TYPE_ACK, h_length = 0, h_flags = MSG_FLAGS_NONE\<rparr>,
      payload = None, payload_size = 0\<rparr>"

definition message_create_error :: "allocator \<Rightarrow> uint8_t list \<Rightarrow> size_t \<Rightarrow> Message" where
  "message_create_error alloc error error_len =
     (let hd = \<lparr>h_type = MSG_TYPE_ERROR, h_length = error_len, h_flags = MSG_FLAGS_NONE\<rparr>
      in if error_len > 0 then
           (if \<not> alloc error_len
            then \<lparr>header = hd, payload = None, payload_size = 0\<rparr>
            else \<lparr>header = hd, payload = Some (take (unat error_len) error),
                   payload_size = error_len\<rparr>)
         else \<lparr>header = hd, payload = None, payload_size = 0\<rparr>)"

definition message_free :: "Message \<Rightarrow> Message" where
  "message_free msg =
     (if payload msg \<noteq> None then msg\<lparr>payload := None, payload_size := 0\<rparr> else msg)"

section \<open>The environment\<close>

text \<open>The program talks to the operating system, the TLS library, the allocator and the
  clock. Their answers are inputs of the model: a \<open>world\<close> holds, for each kind of call,
  the answer to the \<open>k\<close>-th call of that kind and the number of calls made so far, and the
  trace of the calls made.\<close>

datatype io_result = IoError | IoBytes "uint8_t list"

datatype send_result = SendError | SendCount nat

datatype event =
    EvRecv int nat
  | EvSslRead nat int
  | EvSend int "uint8_t list"
  | EvSslWrite nat "uint8_t list"
  | EvClose int
  | EvTlsClose nat
  | EvHandler int Message
  | EvAccept int
  | EvTlsAccept int
  | EvPoll "int list"
  | EvLogError

record timeval =
  tv_sec :: int
  tv_usec :: int

text \<open>The values of \<open>errno\<close> that the code tells apart; \<open>EOTHER\<close> is any other value.\<close>

datatype errno = EINTR | EAGAIN | EWOULDBLOCK | EOTHER

datatype poll_result = PollError errno | PollReturn nat "nat \<Rightarrow> 16 word"

text \<open>A \<open>double\<close> is the real number it stands for. An operation of floating-point
  arithmetic computes the exact result and rounds it to a \<open>double\<close>; the rounding is an
  input of the model, like the byte order of the host, and the results about the program
  hold for every rounding. The operands below are clock readings, their differences and
  sums of those: they stay finite, so no infinity or NaN arises, and the code divides
  only after it has tested that the divisor is greater than 0.\<close>

type_synonym double = real

type_synonym rounding = "real \<Rightarrow> double"

definition d_add :: "rounding \<Rightarrow> double \<Rightarrow> double \<Rightarrow> double" where
  "d_add rnd a b = rnd (a + b)"

definition d_sub :: "rounding \<Rightarrow> double \<Rightarrow> double \<Rightarrow> double" where
  "d_sub rnd a b = rnd (a - b)"

definition d_mul :: "rounding \<Rightarrow> double \<Rightarrow> double \<Rightarrow> double" where
  "d_mul rnd a b = rnd (a * b)"

definition d_div :: "rounding \<Rightarrow> double \<Rightarrow> double \<Rightarrow> double" where
  "d_div rnd a b = rnd (a / b)"

text \<open>The conversions of a \<open>long\<close> and of a \<open>size_t\<close> to \<open>double\<close>.\<close>

definition d_of_int :: "rounding \<Rightarrow> int \<Rightarrow> double" where
  "d_of_int rnd i = rnd (real_of_int i)"

definition d_of_nat :: "rounding \<Rightarrow> nat \<Rightarrow> double" where
  "d_of_nat rnd n = rnd (real n)"

record world =
  w_endian :: endianness
  w_round :: rounding
  w_uninit :: uint8_t
  w_reads :: "nat \<Rightarrow> io_result"
  w_nreads :: nat
  w_writes :: "nat \<Rightarrow> send_result"
  w_nwrites :: nat
  w_allocs :: "nat \<Rightarrow> size_t \<Rightarrow> bool"
  w_nallocs :: nat
  w_clock :: "nat \<Rightarrow> timeval"
  w_nclock :: nat
  w_polls :: "nat \<Rightarrow> poll_result"
  w_stops :: "nat \<Rightarrow> bool"
  w_npolls :: nat
  w_accepts :: "nat \<Rightarrow> int"
  w_accept_errno :: "nat \<Rightarrow> errno"
  w_tls_accepts :: "nat \<Rightarrow> nat option"
  w_naccepts :: nat
  w_trace :: "event list"

definition emit :: "event \<Rightarrow> world \<Rightarrow> world" where
  "emit ev w = w\<lparr>w_trace := w_trace w @ [ev]\<rparr>"

text \<open>\<open>recv(fd, buf, n, MSG_WAITALL)\<close>: \<open>-1\<close> on error, else the count of the bytes
  delivered, at most \<open>n\<close> of those the peer made available before the call returned.\<close>

definition sys_recv :: "int \<Rightarrow> nat \<Rightarrow> world \<Rightarrow> (ssize_t \<times> uint8_t list) \<times> world" where
  "sys_recv fd n w =
     (let w' = emit (EvRecv fd n) (w\<lparr>w_nreads := Suc (w_nreads w)\<rparr>)
      in case w_reads w (w_nreads w) of
           IoError \<Rightarrow> ((- 1, []), w')
         | IoBytes bs \<Rightarrow> ((of_nat (length (take n bs)), take n bs), w'))"

text \<open>\<open>SSL_read(ssl, buf, num)\<close>: \<open>num\<close> is a C \<open>int\<close>; a negative \<open>num\<close> is an error, and
  the \<open>int\<close> result is widened to \<open>ssize_t\<close>.\<close>

definition SSL_read :: "nat \<Rightarrow> 32 word \<Rightarrow> world \<Rightarrow> (ssize_t \<times> uint8_t list) \<times> world" where
  "SSL_read ssl num w =
     (let w' = emit (EvSslRead ssl (sint num)) (w\<lparr>w_nreads := Suc (w_nreads w)\<rparr>)
      in if sint num < 0 then ((- 1, []), w')
         else case w_reads w (w_nreads w) of
           IoError \<Rightarrow> ((- 1, []), w')
         | IoBytes bs \<Rightarrow>
             ((of_nat (length (take (nat (sint num)) bs)), take (nat (sint num)) bs), w'))"

text \<open>\<open>send(fd, buf, n, 0)\<close> and \<open>SSL_write(ssl, buf, num)\<close>, for a call that returns: \<open>-1\<close>
  on error, else the count of bytes accepted, at most the count offered. The answers
  \<open>SendError\<close> and \<open>SendCount k\<close> are those of a write that returns to the program. The
  code passes the flags \<open>0\<close> to \<open>send\<close> and installs no disposition for \<open>SIGPIPE\<close>: when a
  write to a connection that the peer has closed raises \<open>SIGPIPE\<close> with its default
  disposition, the process ends inside the call and nothing of the program runs after
  it. Such a write has no answer here, and no run of the model describes it: every
  statement below about a write that fails is a statement about a write that returns
  \<open>-1\<close> or a short count (as it does for the other errors, and for a closed peer when
  \<open>SIGPIPE\<close> is ignored or blocked in the process that started the program).\<close>

definition sys_send :: "int \<Rightarrow> uint8_t list \<Rightarrow> world \<Rightarrow> ssize_t \<times> world" where
  "sys_send fd buf w =
     (let w' = emit (EvSend fd buf) (w\<lparr>w_nwrites := Suc (w_nwrites w)\<rparr>)
      in case w_writes w (w_nwrites w) of
           SendError \<Rightarrow> (- 1, w')
         | SendCount k \<Rightarrow> (of_nat (min k (length buf)), w'))"

definition SSL_write :: "nat \<Rightarrow> uint8_t list \<Rightarrow> 32 word \<Rightarrow> world \<Rightarrow> ssize_t \<times> world" where
  "SSL_write ssl buf num w =
     (let out = take (nat (sint num)) buf;
          w' = emit (EvSslWrite ssl out) (w\<lparr>w_nwrites := Suc (w_nwrites w)\<rparr>)
      in if sint num < 0 then (- 1, w')
         else case w_writes w (w_nwrites w) of
           SendError \<Rightarrow> (- 1, w')
         | SendCount k \<Rightarrow> (of_nat (min k (length out)), w'))"

text \<open>\<open>malloc(n)\<close> and \<open>realloc(p, n)\<close>: whether the request succeeds.\<close>

definition sys_malloc :: "size_t \<Rightarrow> world \<Rightarrow> bool \<times> world" where
  "sys_malloc n w = (w_allocs w (w_nallocs w) n, w\<lparr>w_nallocs := Suc (w_nallocs w)\<rparr>)"

definition gettimeofday :: "world \<Rightarrow> timeval \<times> world" where
  "gettimeofday w = (w_clock w (w_nclock w), w\<lparr>w_nclock := Suc (w_nclock w)\<rparr>)"

subsection \<open>The header in memory\<close>

text \<open>The packed header is 16 bytes of memory: \<open>type\<close> at offset 0, \<open>length\<close> at 4,
  \<open>flags\<close> at 12, each field in the byte order of the host.\<close>

definition sizeof_MessageHeader :: nat where
  "sizeof_MessageHeader = 16"

definition le_bytes :: "nat \<Rightarrow> 'a::len word \<Rightarrow> uint8_t list" where
  "le_bytes k x = map (\<lambda>i. ucast (drop_bit (8 * i) x)) [0..<k]"

definition le_word :: "uint8_t list \<Rightarrow> 'a::len word" where
  "le_word bs = foldr (\<lambda>b acc. ucast b OR push_bit 8 acc) bs 0"

definition store_word :: "endianness \<Rightarrow> nat \<Rightarrow> 'a::len word \<Rightarrow> uint8_t list" where
  "store_word e k x = (case e of LittleEndian \<Rightarrow> le_bytes k x | BigEndian \<Rightarrow> rev (le_bytes k x))"

definition load_word :: "endianness \<Rightarrow> uint8_t list \<Rightarrow> 'a::len word" where
  "load_word e bs = (case e of LittleEndian \<Rightarrow> le_word bs | BigEndian \<Rightarrow> le_word (rev bs))"

definition header_bytes :: "endianness \<Rightarrow> MessageHeader \<Rightarrow> uint8_t list" where
  "header_bytes e h =
     store_word e 4 (h_type h) @ store_word e 8 (h_length h) @ store_word e 4 (h_flags h)"

definition header_of_bytes :: "endianness \<Rightarrow> uint8_t list \<Rightarrow> MessageHeader" where
  "header_of_bytes e bs =
     \<lparr>h_type = load_word e (take 4 bs),
      h_length = load_word e (take 8 (drop 4 bs)),
      h_flags = load_word e (take 4 (drop 12 bs))\<rparr>"

section \<open>Common network code (net\_common.c)\<close>

text \<open>Both functions choose the transport at each call by \<open>is_ssl && ssl\<close>; a size
  passed to the TLS library is converted to \<open>int\<close>.\<close>

definition net_read ::
  "int \<Rightarrow> nat option \<Rightarrow> int \<Rightarrow> size_t \<Rightarrow> world \<Rightarrow> (ssize_t \<times> uint8_t list) \<times> world" where
  "net_read fd ssl is_ssl n w =
     (case ssl of
        Some s \<Rightarrow> if is_ssl \<noteq> 0 then SSL_read s (ucast n) w else sys_recv fd (unat n) w
      | None \<Rightarrow> sys_recv fd (unat n) w)"

definition net_write ::
  "int \<Rightarrow> nat option \<Rightarrow> int \<Rightarrow> uint8_t list \<Rightarrow> size_t \<Rightarrow> world \<Rightarrow> ssize_t \<times> world" where
  "net_write fd ssl is_ssl buf n w =
     (case ssl of
        Some s \<Rightarrow> if is_ssl \<noteq> 0 then SSL_write s buf (ucast n) w
                  else sys_send fd (take (unat n) buf) w
      | None \<Rightarrow> sys_send fd (take (unat n) buf) w)"

definition send_message :: "int \<Rightarrow> nat option \<Rightarrow> int \<Rightarrow> Message \<Rightarrow> world \<Rightarrow> int \<times> world" where
  "send_message fd ssl is_ssl msg w =
     (let hd = message_header_serialize (w_endian w) (header msg);
          (sent, w1) = net_write fd ssl is_ssl (header_bytes (w_endian w) hd)
                         (of_nat sizeof_MessageHeader) w
      in if sent \<noteq> of_nat sizeof_MessageHeader then (- 1, w1)
         else case payload msg of
           Some buf \<Rightarrow>
             if h_length (header msg) > 0 then
               (let (sent, w2) = net_write fd ssl is_ssl buf (payload_size msg) w1
                in if sent \<noteq> payload_size msg then (- 1, w2) else (0, w2))
             else (0, w1)
         | None \<Rightarrow> (0, w1))"

definition receive_message ::
  "int \<Rightarrow> nat option \<Rightarrow> int \<Rightarrow> Message \<Rightarrow> world \<Rightarrow> (int \<times> Message) \<times> world" where
  "receive_message fd ssl is_ssl msg w =
     (let ((received, hbuf), w1) = net_read fd ssl is_ssl (of_nat sizeof_MessageHeader) w
      in if received \<noteq> of_nat sizeof_MessageHeader then ((- 1, msg), w1)
         else
           (let hd = message_header_deserialize (w_endian w) (header_of_bytes (w_endian w) hbuf);
                msg1 = msg\<lparr>header := hd, payload := None, payload_size := 0\<rparr>
            in if h_length hd > 0 then
                 (let (ok, w2) = sys_malloc (h_length hd) w1
                  in if \<not> ok then ((- 1, msg1), w2)
                     else
                       (let buf = replicate (unat (h_length hd)) (w_uninit w);
                            msg2 = msg1\<lparr>payload := Some buf, payload_size := h_length hd\<rparr>;
                            ((received, pbuf), w3) = net_read fd ssl is_ssl (h_length hd) w2;
                            msg3 = msg2\<lparr>payload := Some (pbuf @ drop (length pbuf) buf)\<rparr>
                        in if received \<noteq> h_length hd
                           then ((- 1, msg3\<lparr>payload := None, payload_size := 0\<rparr>), w3)
                           else ((0, msg3), w3)))
               else ((0, msg1), w1)))"

section \<open>Server (server.h, server.c)\<close>

datatype SocketMode = SOCKET_MODE_UNIX | SOCKET_MODE_INET

text \<open>\<open>ClientConnection\<close>: \<open>fd\<close>, \<open>ssl\<close> (\<open>None\<close> for \<open>NULL\<close>) and \<open>is_ssl\<close>.\<close>

record ClientConnection =
  cc_fd :: int
  cc_ssl :: "nat option"
  cc_is_ssl :: int

text \<open>\<open>Server\<close>. The \<open>clients\<close> array is a list as long as \<open>client_capacity\<close>; its first
  \<open>client_count\<close> entries are the live connections. The \<open>size_t\<close> counters are natural
  numbers: no path of the code below subtracts from 0 (\<open>remove_client\<close> computes
  \<open>client_count - 1\<close> only after \<open>index < client_count\<close>), and an overflow would need
  \<open>2^64\<close> connections, messages or payload bytes. The \<open>double\<close> fields hold the real
  numbers that the stored doubles stand for; each is the rounded result of the
  floating-point operation that computed it.\<close>

record Server =
  mode :: SocketMode
  address :: "string option"
  enable_tls :: int
  server_fd :: int
  running :: int
  ssl_ctx :: "nat option"
  clients :: "ClientConnection list"
  client_count :: nat
  client_capacity :: nat
  total_clients :: nat
  total_messages :: nat
  start_time :: double
  total_bytes :: nat
  last_message_time :: double
  total_interval_ms :: double
  min_interval_ms :: double
  max_interval_ms :: double
  interval_count :: nat

definition sizeof_ClientConnection :: nat where
  "sizeof_ClientConnection = 24"

definition sizeof_pollfd :: nat where
  "sizeof_pollfd = 8"

definition POLLIN :: "16 word" where "POLLIN = 0x001"

definition POLLERR :: "16 word" where "POLLERR = 0x008"

definition POLLHUP :: "16 word" where "POLLHUP = 0x010"

text \<open>The slots that \<open>realloc\<close> adds to the array hold unspecified data; the code writes a
  slot before it reads it.\<close>

definition fresh_slot :: ClientConnection where
  "fresh_slot = \<lparr>cc_fd = 0, cc_ssl = None, cc_is_ssl = 0\<rparr>"

text \<open>The expression \<open>tv.tv_sec + tv.tv_usec / 1000000.0\<close>: both fields are converted to
  \<open>double\<close>, the quotient and the sum are rounded.\<close>

definition timeval_seconds :: "rounding \<Rightarrow> timeval \<Rightarrow> double" where
  "timeval_seconds rnd tv =
     d_add rnd (d_of_int rnd (tv_sec tv)) (d_div rnd (d_of_int rnd (tv_usec tv)) 1000000)"

definition close_tls_connection :: "nat option \<Rightarrow> world \<Rightarrow> world" where
  "close_tls_connection p w = (case p of Some s \<Rightarrow> emit (EvTlsClose s) w | None \<Rightarrow> w)"

definition add_client :: "int \<Rightarrow> nat option \<Rightarrow> Server \<Rightarrow> world \<Rightarrow> Server \<times> world" where
  "add_client new_fd new_ssl server w =
     (let (grown, w1) =
            (if client_count server \<ge> client_capacity server then
               (let new_capacity =
                      (if client_capacity server = 0 then 8 else client_capacity server * 2);
                    (ok, w') = sys_malloc (of_nat (new_capacity * sizeof_ClientConnection)) w
                in if \<not> ok then (None, emit EvLogError w')
                   else (Some (server\<lparr>clients := clients server
                                   @ replicate (new_capacity - client_capacity server) fresh_slot,
                                 client_capacity := new_capacity\<rparr>), w'))
             else (Some server, w))
      in case grown of
           None \<Rightarrow> (server, w1)
         | Some s \<Rightarrow>
             (s\<lparr>clients := (clients s)[client_count s :=
                     \<lparr>cc_fd = new_fd, cc_ssl = new_ssl,
                      cc_is_ssl = (if new_ssl \<noteq> None then 1 else 0)\<rparr>],
                client_count := client_count s + 1,
                total_clients := total_clients s + 1\<rparr>, w1))"

text \<open>The loop of \<open>remove_client\<close> that moves the remaining clients down by one.\<close>

function shift_clients :: "nat \<Rightarrow> nat \<Rightarrow> ClientConnection list \<Rightarrow> ClientConnection list" where
  "shift_clients i count cs =
     (if i < count - 1 then shift_clients (i + 1) count (cs[i := cs ! (i + 1)]) else cs)"
  by pat_completeness auto

termination
  by (relation "measure (\<lambda>(i, count, cs). count - i)") auto

declare shift_clients.simps [simp del]

definition remove_client :: "nat \<Rightarrow> Server \<Rightarrow> world \<Rightarrow> Server \<times> world" where
  "remove_client index server w =
     (if index \<ge> client_count server then (server, w)
      else
        (let client = clients server ! index;
             w1 = (if cc_is_ssl client \<noteq> 0 \<and> cc_ssl client \<noteq> None
                   then close_tls_connection (cc_ssl client) w else w);
             w2 = emit (EvClose (cc_fd client)) w1
         in (server\<lparr>clients := shift_clients index (client_count server) (clients server),
                    client_count := client_count server - 1\<rparr>, w2)))"

text \<open>\<open>accept_new_connection\<close>: the descriptor that \<open>accept\<close> returns and, when it is
  negative, the value of \<open>errno\<close> are inputs; a failure other than \<open>EAGAIN\<close> and
  \<open>EWOULDBLOCK\<close> is logged as an error.\<close>

definition accept_new_connection :: "Server \<Rightarrow> world \<Rightarrow> Server \<times> world" where
  "accept_new_connection server w =
     (let client_fd = w_accepts w (w_naccepts w);
          w1 = emit (EvAccept (server_fd server)) (w\<lparr>w_naccepts := Suc (w_naccepts w)\<rparr>)
      in if client_fd < 0 then
           (if w_accept_errno w (w_naccepts w) \<noteq> EAGAIN
               \<and> w_accept_errno w (w_naccepts w) \<noteq> EWOULDBLOCK
            then (server, emit EvLogError w1) else (server, w1))
         else if enable_tls server \<noteq> 0 then
           (case w_tls_accepts w (w_naccepts w) of
              None \<Rightarrow> (server, emit (EvClose client_fd) (emit (EvTlsAccept client_fd) w1))
            | Some s \<Rightarrow> add_client client_fd (Some s) server (emit (EvTlsAccept client_fd) w1))
         else add_client client_fd None server w1)"

text \<open>The metrics block of \<open>handle_client_message\<close> (the statements from
  \<open>if (server->last_message_time > 0.0)\<close> to \<open>server->total_bytes += msg.payload_size\<close>),
  for the time \<open>now\<close> read from the clock. The difference, the product and the sum are
  floating-point operations, each rounded.\<close>

definition record_metrics :: "rounding \<Rightarrow> double \<Rightarrow> size_t \<Rightarrow> Server \<Rightarrow> Server" where
  "record_metrics rnd now nbytes server =
     (let s1 =
            (if last_message_time server > 0 then
               (let interval_ms = d_mul rnd (d_sub rnd now (last_message_time server)) 1000;
                    a = server\<lparr>total_interval_ms :=
                                 d_add rnd (total_interval_ms server) interval_ms\<rparr>;
                    b = (if interval_count a = 0 \<or> interval_ms < min_interval_ms a
                         then a\<lparr>min_interval_ms := interval_ms\<rparr> else a);
                    c = (if interval_count b = 0 \<or> interval_ms > max_interval_ms b
                         then b\<lparr>max_interval_ms := interval_ms\<rparr> else b)
                in c\<lparr>interval_count := interval_count c + 1\<rparr>)
             else server)
      in s1\<lparr>last_message_time := now,
            total_messages := total_messages s1 + 1,
            total_bytes := total_bytes s1 + unat nbytes\<rparr>)"

text \<open>The local \<open>Message msg\<close> of \<open>handle_client_message\<close> before \<open>receive_message\<close> fills
  it; it is not read when the receive fails.\<close>

definition local_Message :: Message where
  "local_Message =
     \<lparr>header = \<lparr>h_type = 0, h_length = 0, h_flags = 0\<rparr>, payload = None, payload_size = 0\<rparr>"

text \<open>\<open>handle_client_message\<close>; \<open>handler\<close> tells whether the callback pointer is non-null,
  and a call of the callback is an event of the trace.\<close>

definition handle_client_message :: "nat \<Rightarrow> bool \<Rightarrow> Server \<Rightarrow> world \<Rightarrow> Server \<times> world" where
  "handle_client_message client_index handler server w =
     (let client = clients server ! client_index;
          ((rc, msg), w1) =
             receive_message (cc_fd client) (cc_ssl client) (cc_is_ssl client) local_Message w
      in if rc < 0 then remove_client client_index server w1
         else
           (let (tv, w2) = gettimeofday w1;
                now = timeval_seconds (w_round w) tv;
                server1 = record_metrics (w_round w) now (payload_size msg) server;
                w3 = (if handler then emit (EvHandler (cc_fd client) msg) w2 else w2);
                w4 = (if h_type (header msg) \<noteq> MSG_TYPE_ACK then
                        (let ack = message_create_ack;
                             (sent, w') = send_message (cc_fd client) (cc_ssl client)
                                            (cc_is_ssl client) ack w3;
                             ack' = message_free ack
                         in w')
                      else w3);
                msg' = message_free msg
            in (server1, w4)))"

text \<open>The \<open>for\<close> loop of \<open>run_event_loop\<close> over the client entries of the poll set.\<close>

function client_loop ::
  "nat \<Rightarrow> nat \<Rightarrow> (nat \<Rightarrow> 16 word) \<Rightarrow> bool \<Rightarrow> Server \<Rightarrow> world \<Rightarrow> Server \<times> world" where
  "client_loop i pollfd_count revents handler server w =
     (if i < pollfd_count then
        (let client_index = i - 1
         in if client_index \<ge> client_count server
            then client_loop (i + 1) pollfd_count revents handler server w
            else
              (let sw1 = (if revents i AND POLLIN \<noteq> 0
                          then handle_client_message client_index handler server w
                          else (server, w))
               in if revents i AND (POLLHUP OR POLLERR) \<noteq> 0
                  then (let sw2 = remove_client client_index (fst sw1) (snd sw1)
                        in client_loop ((i - 1) + 1) (pollfd_count - 1) revents handler
                             (fst sw2) (snd sw2))
                  else client_loop (i + 1) pollfd_count revents handler (fst sw1) (snd sw1)))
      else (server, w))"
  by pat_completeness auto

termination
  by (relation "measure (\<lambda>(i, pollfd_count, revents, handler, server, w). pollfd_count - i)") auto

declare client_loop.simps [simp del]

text \<open>One pass through the body of the \<open>while\<close> loop of \<open>run_event_loop\<close>, entered with
  \<open>server->running\<close> non-zero: \<open>Break\<close> when the body leaves the loop, \<open>Continue\<close> with the
  new capacity of the poll array otherwise. \<open>poll\<close> answers \<open>PollError\<close> with the
  \<open>errno\<close> when it returns a negative value, and \<open>PollReturn\<close> with its result and the
  \<open>revents\<close> of the array otherwise. A stop requested from outside (a signal handler
  calling \<open>server_stop\<close>) while \<open>poll\<close> waits clears \<open>running\<close>.\<close>

datatype loop_step = Break Server world | Continue nat Server world

definition sys_poll :: "int list \<Rightarrow> world \<Rightarrow> poll_result \<times> bool \<times> world" where
  "sys_poll fds w =
     (w_polls w (w_npolls w), w_stops w (w_npolls w),
      emit (EvPoll fds) (w\<lparr>w_npolls := Suc (w_npolls w)\<rparr>))"

definition server_stop :: "Server \<Rightarrow> Server" where
  "server_stop server = server\<lparr>running := 0\<rparr>"

definition event_loop_body :: "bool \<Rightarrow> nat \<Rightarrow> Server \<Rightarrow> world \<Rightarrow> loop_step" where
  "event_loop_body handler pollfd_capacity server w =
     (let needed = 1 + client_count server;
          (grown, w1) =
            (if needed > pollfd_capacity then
               (let new_capacity = needed + 8;
                    (ok, w') = sys_malloc (of_nat (new_capacity * sizeof_pollfd)) w
                in if \<not> ok then (None, emit EvLogError w') else (Some new_capacity, w'))
             else (Some pollfd_capacity, w))
      in case grown of
           None \<Rightarrow> Break server w1
         | Some capacity \<Rightarrow>
             (let fds = server_fd server # map cc_fd (take (client_count server) (clients server));
                  pollfd_count = 1 + client_count server;
                  (res, stop, w2) = sys_poll fds w1;
                  server1 = (if stop then server_stop server else server)
              in case res of
                   PollError e \<Rightarrow>
                     (if e = EINTR then Continue capacity server1 w2
                      else Break server1 (emit EvLogError w2))
                 | PollReturn poll_result revents \<Rightarrow>
                     if poll_result = 0 then Continue capacity server1 w2
                     else
                       (let sw3 = (if revents 0 AND POLLIN \<noteq> 0
                                   then accept_new_connection server1 w2 else (server1, w2));
                            sw4 = client_loop 1 pollfd_count revents handler (fst sw3) (snd sw3)
                        in Continue capacity (fst sw4) (snd sw4))))"

text \<open>\<open>run_event_loop\<close> with a bound on the number of iterations: \<open>None\<close> when the bound
  is reached before the loop ends.\<close>

fun run_event_loop :: "nat \<Rightarrow> bool \<Rightarrow> nat \<Rightarrow> Server \<Rightarrow> world \<Rightarrow> (Server \<times> world) option" where
  "run_event_loop 0 handler pollfd_capacity server w = None"
| "run_event_loop (Suc n) handler pollfd_capacity server w =
     (if running server = 0 then Some (server, w)
      else case event_loop_body handler pollfd_capacity server w of
             Break server' w' \<Rightarrow> Some (server', w')
           | Continue capacity server' w' \<Rightarrow> run_event_loop n handler capacity server' w')"

text \<open>\<open>server_init\<close>: \<open>memset\<close> to zero, then the fields one by one. The results of
  \<open>strdup\<close>, \<open>init_tls_server\<close> and \<open>gettimeofday\<close> are inputs.\<close>

definition zero_Server :: Server where
  "zero_Server =
     \<lparr>mode = SOCKET_MODE_UNIX, address = None, enable_tls = 0, server_fd = 0, running = 0,
      ssl_ctx = None, clients = [], client_count = 0, client_capacity = 0, total_clients = 0,
      total_messages = 0, start_time = 0, total_bytes = 0, last_message_time = 0,
      total_interval_ms = 0, min_interval_ms = 0, max_interval_ms = 0, interval_count = 0\<rparr>"

definition server_init ::
  "rounding \<Rightarrow> SocketMode \<Rightarrow> string \<Rightarrow> int \<Rightarrow> bool \<Rightarrow> nat option \<Rightarrow> timeval
     \<Rightarrow> int \<times> Server" where
  "server_init rnd mode0 address0 enable_tls0 strdup_ok tls_ctx tv =
     (let s0 = zero_Server\<lparr>mode := mode0,
                 address := (if strdup_ok then Some address0 else None)\<rparr>
      in if \<not> strdup_ok then (- 1, s0)
         else
           (let s1 = s0\<lparr>enable_tls := enable_tls0, server_fd := - 1, running := 0,
                       clients := [], client_count := 0, client_capacity := 0,
                       total_clients := 0, total_messages := 0, total_bytes := 0,
                       last_message_time := 0, total_interval_ms := 0,
                       min_interval_ms := 0, max_interval_ms := 0, interval_count := 0,
                       start_time := timeval_seconds rnd tv\<rparr>
            in if enable_tls0 \<noteq> 0 then
                 (case tls_ctx of
                    None \<Rightarrow> (- 1, s1\<lparr>ssl_ctx := None, address := None\<rparr>)
                  | Some c \<Rightarrow> (0, s1\<lparr>ssl_ctx := Some c\<rparr>))
               else (0, s1\<lparr>ssl_ctx := None\<rparr>)))"

text \<open>\<open>server_get_metrics\<close> writes through the output pointers that are not null:
  \<open>metric_ptrs\<close> tells which are not null, \<open>metric_out\<close> holds what was written.\<close>

record metric_ptrs =
  p_total_clients :: bool
  p_total_messages :: bool
  p_uptime :: bool
  p_throughput_mbps :: bool
  p_avg_latency_ms :: bool
  p_min_latency_ms :: bool
  p_max_latency_ms :: bool

record metric_out =
  o_total_clients :: "nat option"
  o_total_messages :: "nat option"
  o_uptime :: "double option"
  o_throughput_mbps :: "double option"
  o_avg_latency_ms :: "double option"
  o_min_latency_ms :: "double option"
  o_max_latency_ms :: "double option"

definition no_output :: metric_out where
  "no_output =
     \<lparr>o_total_clients = None, o_total_messages = None, o_uptime = None,
      o_throughput_mbps = None, o_avg_latency_ms = None, o_min_latency_ms = None,
      o_max_latency_ms = None\<rparr>"

definition server_get_metrics ::
  "rounding \<Rightarrow> Server option \<Rightarrow> metric_ptrs \<Rightarrow> timeval \<Rightarrow> metric_out" where
  "server_get_metrics rnd sp ptrs tv =
     (case sp of
        None \<Rightarrow> no_output
      | Some server \<Rightarrow>
          (let current_time = timeval_seconds rnd tv;
               uptime = (if p_uptime ptrs then Some (d_sub rnd current_time (start_time server))
                         else None)
           in \<lparr>o_total_clients = (if p_total_clients ptrs then Some (total_clients server) else None),
               o_total_messages =
                 (if p_total_messages ptrs then Some (total_messages server) else None),
               o_uptime = uptime,
               o_throughput_mbps =
                 (if p_throughput_mbps ptrs then
                    (case uptime of
                       Some u \<Rightarrow>
                         if u > 0 then
                           (let megabytes = d_div rnd (d_of_nat rnd (total_bytes server))
                                              (d_mul rnd 1024 1024)
                            in Some (d_div rnd megabytes u))
                         else Some 0
                     | None \<Rightarrow> Some 0)
                  else None),
               o_avg_latency_ms =
                 (if p_avg_latency_ms ptrs then
                    (if interval_count server > 0
                     then Some (d_div rnd (total_interval_ms server)
                                  (d_of_nat rnd (interval_count server)))
                     else Some 0)
                  else None),
               o_min_latency_ms =
                 (if p_min_latency_ms ptrs
                  then Some (if interval_count server > 0 then min_interval_ms server else 0)
                  else None),
               o_max_latency_ms =
                 (if p_max_latency_ms ptrs
                  then Some (if interval_count server > 0 then max_interval_ms server else 0)
                  else None)\<rparr>))"

section \<open>Client (client.h, client.c)\<close>

record Client =
  cl_mode :: SocketMode
  cl_address :: "string option"
  cl_enable_tls :: int
  cl_fd :: int
  cl_ssl :: "nat option"
  cl_connected :: int
  cl_timeout_sec :: int
  cl_ssl_ctx :: "nat option"

text \<open>The calls the client makes, in order, are its trace. What the environment answers
  during the \<open>k\<close>-th pass of the loop of \<open>client_connect\<close> is an \<open>attempt\<close>: whether
  \<open>parse_address\<close> returned a host, the result of \<open>connect_unix_socket\<close> or
  \<open>connect_inet_socket\<close>, the result of \<open>set_socket_timeout\<close>, and the result of
  \<open>connect_tls\<close>.\<close>

datatype client_event =
    CeParseAddress
  | CeConnectUnix
  | CeConnectInet
  | CeSetTimeout int int
  | CeConnectTls int
  | CeSleep int
  | CeClose int
  | CeTlsClose nat

record attempt =
  a_parse_ok :: bool
  a_connect :: int
  a_timeout :: int
  a_tls :: "nat option"

text \<open>\<open>connect_unix_socket\<close> and \<open>connect_inet_socket\<close> (client\_net.c), as functions of
  the results of \<open>socket\<close>, \<open>inet_aton\<close> and \<open>connect\<close>: the descriptor of the socket, or
  \<open>-1\<close>. The field \<open>a_connect\<close> of an attempt is the result of one of them.\<close>

definition connect_unix_socket :: "int \<Rightarrow> int \<Rightarrow> int" where
  "connect_unix_socket sock connect_rc =
     (if sock < 0 then - 1 else if connect_rc < 0 then - 1 else sock)"

definition connect_inet_socket :: "int \<Rightarrow> int \<Rightarrow> int \<Rightarrow> int" where
  "connect_inet_socket sock inet_aton_rc connect_rc =
     (if sock < 0 then - 1 else if inet_aton_rc = 0 then - 1
      else if connect_rc < 0 then - 1 else sock)"

definition zero_Client :: Client where
  "zero_Client =
     \<lparr>cl_mode = SOCKET_MODE_UNIX, cl_address = None, cl_enable_tls = 0, cl_fd = 0,
      cl_ssl = None, cl_connected = 0, cl_timeout_sec = 0, cl_ssl_ctx = None\<rparr>"

definition client_init ::
  "SocketMode \<Rightarrow> string \<Rightarrow> int \<Rightarrow> bool \<Rightarrow> nat option \<Rightarrow> int \<times> Client" where
  "client_init mode0 address0 enable_tls0 strdup_ok tls_ctx =
     (let c0 = zero_Client\<lparr>cl_mode := mode0,
                 cl_address := (if strdup_ok then Some address0 else None)\<rparr>
      in if \<not> strdup_ok then (- 1, c0)
         else
           (let c1 = c0\<lparr>cl_enable_tls := enable_tls0, cl_fd := - 1, cl_ssl := None,
                       cl_connected := 0, cl_timeout_sec := 5, cl_ssl_ctx := None\<rparr>
            in if enable_tls0 \<noteq> 0 then
                 (case tls_ctx of
                    None \<Rightarrow> (- 1, c1\<lparr>cl_address := None\<rparr>)
                  | Some c \<Rightarrow> (0, c1\<lparr>cl_ssl_ctx := Some c\<rparr>))
               else (0, c1)))"

definition max_retries :: nat where
  "max_retries = 5"

text \<open>The block that follows each failure inside the loop: sleep \<open>2^retry_count\<close> seconds
  and go round again when \<open>retry_count < max_retries - 1\<close>, return \<open>-1\<close> otherwise.\<close>

datatype attempt_result =
    Connected Client "client_event list"
  | Again Client "client_event list"
  | GiveUp Client "client_event list"

definition backoff_or_fail :: "nat \<Rightarrow> Client \<Rightarrow> client_event list \<Rightarrow> attempt_result" where
  "backoff_or_fail retry_count client tr =
     (if retry_count < max_retries - 1
      then (let backoff = (2 :: int) ^ retry_count in Again client (tr @ [CeSleep backoff]))
      else GiveUp client tr)"

text \<open>One pass through the body of the loop of \<open>client_connect\<close>.\<close>

definition connect_attempt ::
  "nat \<Rightarrow> attempt \<Rightarrow> Client \<Rightarrow> client_event list \<Rightarrow> attempt_result" where
  "connect_attempt retry_count a client tr =
     (let sock =
            (if cl_mode client = SOCKET_MODE_UNIX
             then Some (client\<lparr>cl_fd := a_connect a\<rparr>, tr @ [CeConnectUnix])
             else if \<not> a_parse_ok a then None
             else Some (client\<lparr>cl_fd := a_connect a\<rparr>, tr @ [CeParseAddress, CeConnectInet]))
      in case sock of
           None \<Rightarrow> backoff_or_fail retry_count client (tr @ [CeParseAddress])
         | Some (c1, t1) \<Rightarrow>
             if cl_fd c1 < 0 then backoff_or_fail retry_count c1 t1
             else if a_timeout a < 0 then
               backoff_or_fail retry_count (c1\<lparr>cl_fd := - 1\<rparr>)
                 (t1 @ [CeSetTimeout (cl_fd c1) (cl_timeout_sec c1), CeClose (cl_fd c1)])
             else
               (let t2 = t1 @ [CeSetTimeout (cl_fd c1) (cl_timeout_sec c1)]
                in if cl_enable_tls c1 \<noteq> 0 then
                     (let c2 = c1\<lparr>cl_ssl := a_tls a\<rparr>;
                          t3 = t2 @ [CeConnectTls (cl_fd c1)]
                      in if cl_ssl c2 = None
                         then backoff_or_fail retry_count (c2\<lparr>cl_fd := - 1\<rparr>)
                                (t3 @ [CeClose (cl_fd c2)])
                         else Connected (c2\<lparr>cl_connected := 1\<rparr>) t3)
                   else Connected (c1\<lparr>cl_connected := 1\<rparr>) t2))"

function connect_loop ::
  "nat \<Rightarrow> (nat \<Rightarrow> attempt) \<Rightarrow> Client \<Rightarrow> client_event list \<Rightarrow> int \<times> Client \<times> client_event list" where
  "connect_loop retry_count env client tr =
     (if retry_count < max_retries then
        (case connect_attempt retry_count (env retry_count) client tr of
           Connected c t \<Rightarrow> (0, c, t)
         | GiveUp c t \<Rightarrow> (- 1, c, t)
         | Again c t \<Rightarrow> connect_loop (retry_count + 1) env c t)
      else (- 1, client, tr))"
  by pat_completeness auto

termination
  by (relation "measure (\<lambda>(retry_count, env, client, tr). max_retries - retry_count)") auto

text \<open>\<open>client_connect\<close> and \<open>client_disconnect\<close>; the client pointer may be null.\<close>

definition client_connect ::
  "Client option \<Rightarrow> int \<Rightarrow> (nat \<Rightarrow> attempt) \<Rightarrow> client_event list
     \<Rightarrow> int \<times> Client option \<times> client_event list" where
  "client_connect cp timeout_sec env tr =
     (case cp of
        None \<Rightarrow> (- 1, None, tr)
      | Some client \<Rightarrow>
          (let (rc, c, t) = connect_loop 0 env (client\<lparr>cl_timeout_sec := timeout_sec\<rparr>) tr
           in (rc, Some c, t)))"

definition client_disconnect ::
  "Client option \<Rightarrow> client_event list \<Rightarrow> Client option \<times> client_event list" where
  "client_disconnect cp tr =
     (case cp of
        None \<Rightarrow> (None, tr)
      | Some client \<Rightarrow>
          if cl_connected client = 0 then (Some client, tr)
          else
            (let (c1, t1) =
                   (case cl_ssl client of
                      Some s \<Rightarrow>
                        if cl_enable_tls client \<noteq> 0
                        then (client\<lparr>cl_ssl := None\<rparr>, tr @ [CeTlsClose s])
                        else (client, tr)
                    | None \<Rightarrow> (client, tr));
                 (c2, t2) =
                   (if cl_fd c1 \<ge> 0 then (c1\<lparr>cl_fd := - 1\<rparr>, t1 @ [CeClose (cl_fd c1)])
                    else (c1, t1))
             in (Some (c2\<lparr>cl_connected := 0\<rparr>), t2)))"

definition client_is_connected :: "Client option \<Rightarrow> bool" where
  "client_is_connected cp =
     (case cp of None \<Rightarrow> False | Some client \<Rightarrow> cl_connected client \<noteq> 0 \<and> cl_fd client \<ge> 0)"

section \<open>Vocabulary of the claims\<close>

text \<open>The definitions of this section are not code of the repository: they name what the
  claims speak about, so that the theorems can be stated.\<close>

subsection \<open>Receiving: what the transport offers to one call\<close>

text \<open>These describe the environment of one call, for stating what the call must
  return: the header that the first read can deliver in full, the payload bytes that the
  second read can deliver in full, and the one assumption made on the allocator, that a
  request for \<open>SIZE_MAX\<close> bytes never succeeds.\<close>

definition payload_bytes :: "Message \<Rightarrow> uint8_t list" where
  "payload_bytes m = (case payload m of None \<Rightarrow> [] | Some b \<Rightarrow> b)"

definition malloc_sane :: "world \<Rightarrow> bool" where
  "malloc_sane w \<longleftrightarrow> (\<forall>k. \<not> w_allocs w k (- 1))"

definition offered_header :: "world \<Rightarrow> MessageHeader option" where
  "offered_header w =
     (case w_reads w (w_nreads w) of
        IoError \<Rightarrow> None
      | IoBytes hb \<Rightarrow>
          if length hb \<ge> sizeof_MessageHeader
          then Some (message_header_deserialize (w_endian w)
                 (header_of_bytes (w_endian w) (take sizeof_MessageHeader hb)))
          else None)"

definition offered_payload :: "world \<Rightarrow> nat \<Rightarrow> uint8_t list option" where
  "offered_payload w n =
     (case w_reads w (Suc (w_nreads w)) of
        IoError \<Rightarrow> None
      | IoBytes pb \<Rightarrow> if length pb \<ge> n then Some (take n pb) else None)"

subsection \<open>The connection table\<close>

text \<open>The live part of the connection table.\<close>

definition table :: "Server \<Rightarrow> ClientConnection list" where
  "table server = take (client_count server) (clients server)"

text \<open>The array invariant of \<open>Server\<close>: the array holds \<open>client_capacity\<close> slots, of which
  the first \<open>client_count\<close> are in use.\<close>

definition server_wf :: "Server \<Rightarrow> bool" where
  "server_wf server \<longleftrightarrow>
     client_count server \<le> client_capacity server
     \<and> length (clients server) = client_capacity server"

subsection \<open>Writes and closes of a trace\<close>

text \<open>The write calls and the close calls of a trace, and the sixteen bytes of an Ack
  header on the wire.\<close>

fun is_send_event :: "event \<Rightarrow> bool" where
  "is_send_event (EvSend f bs) = True"
| "is_send_event (EvSslWrite s bs) = True"
| "is_send_event ev = False"

fun is_close_event :: "event \<Rightarrow> bool" where
  "is_close_event (EvClose f) = True"
| "is_close_event (EvTlsClose s) = True"
| "is_close_event ev = False"

definition sends_of :: "world \<Rightarrow> event list" where
  "sends_of w = filter is_send_event (w_trace w)"

definition closes_of :: "world \<Rightarrow> event list" where
  "closes_of w = filter is_close_event (w_trace w)"

definition ack_wire :: "uint8_t list" where
  "ack_wire = [0, 0, 0, 3, 0, 0, 0, 0, 0, 0, 0, 0, 0, 0, 0, 0]"

text \<open>A write of \<open>n\<close> bytes returns a failure when it returns \<open>-1\<close> or a count short of
  \<open>n\<close>; \<open>send_message\<close> treats both alike.\<close>

definition write_returns_failure :: "send_result \<Rightarrow> nat \<Rightarrow> bool" where
  "write_returns_failure r n \<longleftrightarrow> (case r of SendError \<Rightarrow> True | SendCount k \<Rightarrow> k < n)"

definition ack_send_event :: "ClientConnection \<Rightarrow> event" where
  "ack_send_event c =
     (case cc_ssl c of
        Some s \<Rightarrow> if cc_is_ssl c \<noteq> 0 then EvSslWrite s ack_wire else EvSend (cc_fd c) ack_wire
      | None \<Rightarrow> EvSend (cc_fd c) ack_wire)"

text \<open>The world in which \<open>handle_client_message\<close> sends the Ack, when \<open>receive_message\<close> has
  left the world \<open>w1\<close>: the clock has been read and the callback, if there is one, has
  been called.\<close>

definition world_at_ack :: "bool \<Rightarrow> ClientConnection \<Rightarrow> Message \<Rightarrow> world \<Rightarrow> world" where
  "world_at_ack handler client msg w1 =
     (let w2 = snd (gettimeofday w1)
      in if handler then emit (EvHandler (cc_fd client) msg) w2 else w2)"

subsection \<open>Arrivals and the reference arithmetic of the metrics\<close>

text \<open>A sequence of message arrivals, each with its timestamp (the \<open>double\<close> computed from
  the clock reading) and the payload size, run through the metrics block of the receipt
  path. The reference arithmetic has two forms. In exact arithmetic, \<open>intervals_ms\<close> are
  the differences of consecutive timestamps in milliseconds, and their average is
  \<open>sum_list\<close> of them over their number. In floating-point arithmetic, \<open>measured_ms\<close> are
  the same differences with the subtraction and the multiplication rounded, and
  \<open>running_sum\<close> adds them one by one from 0, rounding each sum.\<close>

definition receipts :: "rounding \<Rightarrow> (double \<times> size_t) list \<Rightarrow> Server \<Rightarrow> Server" where
  "receipts rnd arrivals server =
     foldl (\<lambda>s (t, n). record_metrics rnd t n s) server arrivals"

definition intervals_ms :: "real list \<Rightarrow> real list" where
  "intervals_ms ts = map (\<lambda>(a, b). (b - a) * 1000) (zip ts (tl ts))"

definition measured_ms :: "rounding \<Rightarrow> double list \<Rightarrow> double list" where
  "measured_ms rnd ts = map (\<lambda>(a, b). d_mul rnd (d_sub rnd b a) 1000) (zip ts (tl ts))"

definition running_sum :: "rounding \<Rightarrow> double list \<Rightarrow> double" where
  "running_sum rnd ds = foldl (d_add rnd) 0 ds"

definition all_ptrs :: metric_ptrs where
  "all_ptrs =
     \<lparr>p_total_clients = True, p_total_messages = True, p_uptime = True,
      p_throughput_mbps = True, p_avg_latency_ms = True, p_min_latency_ms = True,
      p_max_latency_ms = True\<rparr>"

subsection \<open>Failures inside the event loop\<close>

text \<open>What can go wrong in one pass of the loop: the allocation that grows the poll array
  fails, the allocation that grows the client table fails, or \<open>poll\<close> fails with an error
  other than \<open>EINTR\<close>.\<close>

definition pollfd_alloc_fails :: "nat \<Rightarrow> Server \<Rightarrow> world \<Rightarrow> bool" where
  "pollfd_alloc_fails pollfd_capacity server w \<longleftrightarrow>
     1 + client_count server > pollfd_capacity
     \<and> \<not> w_allocs w (w_nallocs w) (of_nat ((1 + client_count server + 8) * sizeof_pollfd))"

definition table_alloc_fails :: "Server \<Rightarrow> world \<Rightarrow> bool" where
  "table_alloc_fails server w \<longleftrightarrow>
     client_count server \<ge> client_capacity server
     \<and> \<not> w_allocs w (w_nallocs w)
           (of_nat ((if client_capacity server = 0 then 8 else client_capacity server * 2)
              * sizeof_ClientConnection))"

definition poll_fails :: "world \<Rightarrow> bool" where
  "poll_fails w \<longleftrightarrow> (case w_polls w (w_npolls w) of
       PollError e \<Rightarrow> e \<noteq> EINTR | PollReturn n revents \<Rightarrow> False)"

subsection \<open>The retry policy of the client\<close>

text \<open>For stating the retry policy: whether an attempt fails for a client, the delays slept
  in a trace, and the number of attempts begun in a trace (each pass of the loop begins
  with \<open>connect_unix_socket\<close> in UNIX mode and with \<open>parse_address\<close> in INET mode).\<close>

definition attempt_fails :: "Client \<Rightarrow> attempt \<Rightarrow> bool" where
  "attempt_fails client a \<longleftrightarrow>
     (cl_mode client \<noteq> SOCKET_MODE_UNIX \<and> \<not> a_parse_ok a)
     \<or> a_connect a < 0 \<or> a_timeout a < 0
     \<or> (cl_enable_tls client \<noteq> 0 \<and> a_tls a = None)"

fun sleep_seconds :: "client_event \<Rightarrow> int list" where
  "sleep_seconds (CeSleep n) = [n]"
| "sleep_seconds ev = []"

definition sleeps_of :: "client_event list \<Rightarrow> int list" where
  "sleeps_of tr = concat (map sleep_seconds tr)"

fun begins_attempt :: "client_event \<Rightarrow> bool" where
  "begins_attempt CeConnectUnix = True"
| "begins_attempt CeParseAddress = True"
| "begins_attempt ev = False"

definition attempts_of :: "client_event list \<Rightarrow> nat" where
  "attempts_of tr = length (filter begins_attempt tr)"

text \<open>The schedule of a trace: its attempts and its delays, in the order they happen.\<close>

datatype step = Attempt | Delay int

fun schedule_event :: "client_event \<Rightarrow> step list" where
  "schedule_event CeConnectUnix = [Attempt]"
| "schedule_event CeParseAddress = [Attempt]"
| "schedule_event (CeSleep n) = [Delay n]"
| "schedule_event ev = []"

definition schedule :: "client_event list \<Rightarrow> step list" where
  "schedule tr = concat (map schedule_event tr)"

subsection \<open>Client sessions\<close>

text \<open>What holds of every client session that \<open>client_init\<close>, \<open>client_connect\<close> and
  \<open>client_disconnect\<close> produce: the descriptor is an open one or \<open>-1\<close>, and a TLS session
  exists only when TLS is enabled. The connect functions return a descriptor or \<open>-1\<close>.\<close>

definition client_wf :: "Client \<Rightarrow> bool" where
  "client_wf client \<longleftrightarrow>
     - 1 \<le> cl_fd client \<and> (cl_ssl client = None \<or> cl_enable_tls client \<noteq> 0)"

definition connect_results_ok :: "(nat \<Rightarrow> attempt) \<Rightarrow> bool" where
  "connect_results_ok env \<longleftrightarrow> (\<forall>k. - 1 \<le> a_connect (env k))"

section \<open>Sample inputs\<close>

text \<open>Concrete worlds, servers and clients, on which the theorems are instantiated.\<close>

text \<open>The samples are read through the interval metrics. Their clock readings and
  timestamps are small multiples of half a second, and so are the differences, the
  products by 1000, the sums and the quotients by the interval count computed from
  them: each exact result is a \<open>double\<close>, which rounding leaves as it is.\<close>

definition no_rounding :: rounding where
  "no_rounding x = x"

text \<open>A little-endian host on which the peer sends the text frame \<open>hi\<close> (the sixteen
  header bytes, then the two payload bytes) and then nothing more; writes succeed, an
  allocation of two bytes succeeds, and no connection is pending. The other worlds are
  variations of this one.\<close>

definition hi_frame_world :: world where
  "hi_frame_world =
     \<lparr>w_endian = LittleEndian, w_round = no_rounding, w_uninit = 0,
      w_reads = (\<lambda>k. if k = 0 then IoBytes [0, 0, 0, 1, 0, 0, 0, 0, 0, 0, 0, 2, 0, 0, 0, 0]
                      else if k = 1 then IoBytes [0x68, 0x69] else IoError),
      w_nreads = 0,
      w_writes = (\<lambda>k. SendCount 16), w_nwrites = 0,
      w_allocs = (\<lambda>k n. n = 2), w_nallocs = 0,
      w_clock = (\<lambda>k. \<lparr>tv_sec = 1000 + int k, tv_usec = 0\<rparr>), w_nclock = 0,
      w_polls = (\<lambda>k. PollReturn 0 (\<lambda>i. 0)), w_stops = (\<lambda>k. False), w_npolls = 0,
      w_accepts = (\<lambda>k. - 1), w_accept_errno = (\<lambda>k. EAGAIN),
      w_tls_accepts = (\<lambda>k. None), w_naccepts = 0,
      w_trace = []\<rparr>"

definition blank_message :: Message where
  "blank_message = \<lparr>header = \<lparr>h_type = 0, h_length = 0, h_flags = 0\<rparr>, payload = None, payload_size = 0\<rparr>"

definition short_frame_world :: world where
  "short_frame_world =
     hi_frame_world\<lparr>w_reads :=
       (\<lambda>k. if k = 0 then IoBytes [0, 0, 0, 1, 0, 0, 0, 0, 0, 0, 0, 2, 0, 0, 0, 0]
            else if k = 1 then IoBytes [0x68] else IoError)\<rparr>"

definition alloc_never :: allocator where
  "alloc_never n = False"

definition conn :: "int \<Rightarrow> ClientConnection" where
  "conn n = \<lparr>cc_fd = n, cc_ssl = None, cc_is_ssl = 0\<rparr>"

definition three_clients :: Server where
  "three_clients =
     \<lparr>mode = SOCKET_MODE_UNIX, address = Some ''/tmp/ipc.sock'', enable_tls = 0, server_fd = 3,
      running = 1, ssl_ctx = None,
      clients = [conn 5, conn 6, conn 7, fresh_slot, fresh_slot, fresh_slot, fresh_slot, fresh_slot],
      client_count = 3, client_capacity = 8,
      total_clients = 3, total_messages = 0, start_time = 1000, total_bytes = 0,
      last_message_time = 0, total_interval_ms = 0, min_interval_ms = 0, max_interval_ms = 0,
      interval_count = 0\<rparr>"

text \<open>A server with the one client \<open>conn 5\<close>, and worlds in which that client sends the
  text frame \<open>hi\<close> or an Ack frame; in \<open>send_fails_world\<close> every write returns \<open>-1\<close>, in
  \<open>short_write_world\<close> every write accepts seven bytes only.\<close>

definition one_client :: Server where
  "one_client = three_clients\<lparr>clients := [conn 5, fresh_slot], client_count := 1,
     client_capacity := 2, total_clients := 1\<rparr>"

definition ack_frame_world :: world where
  "ack_frame_world = hi_frame_world\<lparr>w_reads := (\<lambda>k. if k = 0 then IoBytes ack_wire else IoError)\<rparr>"

definition send_fails_world :: world where
  "send_fails_world = hi_frame_world\<lparr>w_writes := (\<lambda>k. SendError)\<rparr>"

definition short_write_world :: world where
  "short_write_world = hi_frame_world\<lparr>w_writes := (\<lambda>k. SendCount 7)\<rparr>"

definition started_server :: Server where
  "started_server =
     snd (server_init no_rounding SOCKET_MODE_UNIX ''/tmp/ipc.sock'' 0 True None
            \<lparr>tv_sec = 50, tv_usec = 0\<rparr>)"

text \<open>Three arrivals at positive timestamps, and three arrivals of which the first is
  stamped 0.\<close>

definition three_arrivals :: "(double \<times> size_t) list" where
  "three_arrivals = [(100, 5), (201 / 2, 7), (102, 1)]"

definition epoch_arrivals :: "(double \<times> size_t) list" where
  "epoch_arrivals = [(0, 1), (1, 1), (3, 1)]"

text \<open>A listening server without clients, and a world in which the first allocation (the
  poll array) succeeds and every later one fails, a connection is pending at the first
  \<open>poll\<close>, the second \<open>poll\<close> times out, and a stop is requested during the third.\<close>

definition listening_server :: Server where
  "listening_server = started_server\<lparr>server_fd := 3, running := 1\<rparr>"

definition table_full_world :: world where
  "table_full_world =
     hi_frame_world\<lparr>
       w_allocs := (\<lambda>k n. k = 0),
       w_polls := (\<lambda>k. if k = 0 then PollReturn 1 (\<lambda>i. if i = 0 then POLLIN else 0)
                         else PollReturn 0 (\<lambda>i. 0)),
       w_stops := (\<lambda>k. k = 2),
       w_accepts := (\<lambda>k. 7)\<rparr>"

definition no_memory_world :: world where
  "no_memory_world = hi_frame_world\<lparr>w_allocs := (\<lambda>k n. False)\<rparr>"

text \<open>A client of a UNIX socket on which nobody listens: every connect is refused.\<close>

definition fresh_client :: Client where
  "fresh_client = snd (client_init SOCKET_MODE_UNIX ''/tmp/ipc.sock'' 0 True None)"

definition refused :: "nat \<Rightarrow> attempt" where
  "refused k = \<lparr>a_parse_ok = True, a_connect = - 1, a_timeout = 0, a_tls = None\<rparr>"

text \<open>A connected TLS session on descriptor 4.\<close>

definition tls_session :: Client where
  "tls_session =
     \<lparr>cl_mode = SOCKET_MODE_INET, cl_address = Some ''127.0.0.1:8080'', cl_enable_tls = 1,
      cl_fd = 4, cl_ssl = Some 9, cl_connected = 1, cl_timeout_sec = 5, cl_ssl_ctx = Some 1\<rparr>"

section \<open>Byte order: the swaps are involutions\<close>

lemma mask32_b3: "(0xff000000 :: uint32_t) = push_bit 24 (mask 8)"
  by (simp add: mask_eq_exp_minus_1)

lemma mask32_b2: "(0x00ff0000 :: uint32_t) = push_bit 16 (mask 8)"
  by (simp add: mask_eq_exp_minus_1)

lemma mask32_b1: "(0x0000ff00 :: uint32_t) = push_bit 8 (mask 8)"
  by (simp add: mask_eq_exp_minus_1)

lemma mask32_b0: "(0x000000ff :: uint32_t) = mask 8"
  by (simp add: mask_eq_exp_minus_1)

lemma bit_bswap_32:
  "bit (bswap_32 x) n \<longleftrightarrow>
     (if n < 8 then bit x (n + 24) else if n < 16 then bit x (n + 8)
      else if n < 24 then bit x (n - 8) else if n < 32 then bit x (n - 24) else False)"
  unfolding bswap_32_def mask32_b3 mask32_b2 mask32_b1 mask32_b0
  by (auto simp add: bit_simps add.commute)

lemma bswap_32_involution: "bswap_32 (bswap_32 x) = x"
  by (rule bit_word_eqI) (auto simp add: bit_bswap_32 add.commute)

lemma mask64_b7: "(0xff00000000000000 :: uint64_t) = push_bit 56 (mask 8)"
  by (simp add: mask_eq_exp_minus_1)

lemma mask64_b6: "(0x00ff000000000000 :: uint64_t) = push_bit 48 (mask 8)"
  by (simp add: mask_eq_exp_minus_1)

lemma mask64_b5: "(0x0000ff0000000000 :: uint64_t) = push_bit 40 (mask 8)"
  by (simp add: mask_eq_exp_minus_1)

lemma mask64_b4: "(0x000000ff00000000 :: uint64_t) = push_bit 32 (mask 8)"
  by (simp add: mask_eq_exp_minus_1)

lemma mask64_b3: "(0x00000000ff000000 :: uint64_t) = push_bit 24 (mask 8)"
  by (simp add: mask_eq_exp_minus_1)

lemma mask64_b2: "(0x0000000000ff0000 :: uint64_t) = push_bit 16 (mask 8)"
  by (simp add: mask_eq_exp_minus_1)

lemma mask64_b1: "(0x000000000000ff00 :: uint64_t) = push_bit 8 (mask 8)"
  by (simp add: mask_eq_exp_minus_1)

lemma mask64_b0: "(0x00000000000000ff :: uint64_t) = mask 8"
  by (simp add: mask_eq_exp_minus_1)

lemma bit_bswap_64:
  "bit (bswap_64 x) n \<longleftrightarrow>
     (if n < 8 then bit x (n + 56) else if n < 16 then bit x (n + 40)
      else if n < 24 then bit x (n + 24) else if n < 32 then bit x (n + 8)
      else if n < 40 then bit x (n - 8) else if n < 48 then bit x (n - 24)
      else if n < 56 then bit x (n - 40) else if n < 64 then bit x (n - 56) else False)"
  unfolding bswap_64_def mask64_b7 mask64_b6 mask64_b5 mask64_b4
    mask64_b3 mask64_b2 mask64_b1 mask64_b0
  by (auto simp add: bit_simps add.commute)

lemma bswap_64_involution: "bswap_64 (bswap_64 x) = x"
  by (rule bit_word_eqI) (auto simp add: bit_bswap_64 add.commute)

lemma ntohl_htonl: "ntohl e (htonl e x) = x"
  by (cases e) (simp_all add: ntohl_def htonl_def bswap_32_involution)

lemma be64toh_htobe64: "be64toh e (htobe64 e x) = x"
  by (cases e) (simp_all add: be64toh_def htobe64_def bswap_64_involution)

text \<open>On a little-endian host the serialized fields really change: the swap is not the
  identity, so the round trip below is not a round trip of two identities.\<close>

lemma serialize_little_endian_example:
  "message_header_serialize LittleEndian \<lparr>h_type = 0x01, h_length = 5, h_flags = 0\<rparr>
     = \<lparr>h_type = 0x01000000, h_length = 0x0500000000000000, h_flags = 0\<rparr>"
  by (simp add: message_header_serialize_def htonl_def htobe64_def bswap_32_def bswap_64_def)

section \<open>Claims about the codec\<close>

text \<open>C1. Header round trip: for every header \<open>(type, length, flags)\<close> and on a host of either
  byte order, deserializing the serialized header gives back exactly the same header.\<close>

theorem header_round_trip:
  "message_header_deserialize e (message_header_serialize e h) = h"
  by (simp add: message_header_deserialize_def message_header_serialize_def
      ntohl_htonl be64toh_htobe64)

section \<open>The header on the wire\<close>

lemma le_bytes_4: "le_bytes 4 x = [ucast x, ucast (drop_bit 8 x), ucast (drop_bit 16 x), ucast (drop_bit 24 x)]"
  by (simp add: le_bytes_def upt_rec)

lemma le_bytes_8:
  "le_bytes 8 x = [ucast x, ucast (drop_bit 8 x), ucast (drop_bit 16 x), ucast (drop_bit 24 x),
     ucast (drop_bit 32 x), ucast (drop_bit 40 x), ucast (drop_bit 48 x), ucast (drop_bit 56 x)]"
  by (simp add: le_bytes_def upt_rec)

lemma bytes_of_bswap_32:
  "(ucast (bswap_32 x) :: uint8_t) = ucast (drop_bit 24 x)"
  "(ucast (drop_bit 8 (bswap_32 x)) :: uint8_t) = ucast (drop_bit 16 x)"
  "(ucast (drop_bit 16 (bswap_32 x)) :: uint8_t) = ucast (drop_bit 8 x)"
  "(ucast (drop_bit 24 (bswap_32 x)) :: uint8_t) = ucast x"
  by (rule bit_word_eqI; auto simp: bit_simps bit_bswap_32 add.commute)+

lemma le_bytes_bswap_32: "le_bytes 4 (bswap_32 x) = rev (le_bytes 4 x)"
  by (simp add: le_bytes_4 bytes_of_bswap_32)

lemma bytes_of_bswap_64:
  "(ucast (bswap_64 x) :: uint8_t) = ucast (drop_bit 56 x)"
  "(ucast (drop_bit 8 (bswap_64 x)) :: uint8_t) = ucast (drop_bit 48 x)"
  "(ucast (drop_bit 16 (bswap_64 x)) :: uint8_t) = ucast (drop_bit 40 x)"
  "(ucast (drop_bit 24 (bswap_64 x)) :: uint8_t) = ucast (drop_bit 32 x)"
  "(ucast (drop_bit 32 (bswap_64 x)) :: uint8_t) = ucast (drop_bit 24 x)"
  "(ucast (drop_bit 40 (bswap_64 x)) :: uint8_t) = ucast (drop_bit 16 x)"
  "(ucast (drop_bit 48 (bswap_64 x)) :: uint8_t) = ucast (drop_bit 8 x)"
  "(ucast (drop_bit 56 (bswap_64 x)) :: uint8_t) = ucast x"
  by (rule bit_word_eqI; auto simp: bit_simps bit_bswap_64 add.commute)+

lemma le_bytes_bswap_64: "le_bytes 8 (bswap_64 x) = rev (le_bytes 8 x)"
  by (simp add: le_bytes_8 bytes_of_bswap_64)


lemma le_word_le_bytes_32: "le_word (le_bytes 4 x) = (x :: uint32_t)"
proof (rule bit_word_eqI)
  fix n assume "n < LENGTH(32)"
  then have n: "n < 32" by simp
  show "bit (le_word (le_bytes 4 x) :: uint32_t) n = bit x n"
    using n
    by (cases "n < 8"; cases "n < 16"; cases "n < 24")
      (auto simp add: le_bytes_4 le_word_def bit_simps)
qed

lemma le_word_le_bytes_64: "le_word (le_bytes 8 x) = (x :: uint64_t)"
proof (rule bit_word_eqI)
  fix n assume "n < LENGTH(64)"
  then have n: "n < 64" by simp
  show "bit (le_word (le_bytes 8 x) :: uint64_t) n = bit x n"
    using n
    by (cases "n < 8"; cases "n < 16"; cases "n < 24"; cases "n < 32"; cases "n < 40";
        cases "n < 48"; cases "n < 56")
      (auto simp add: le_bytes_8 le_word_def bit_simps)
qed

lemma load_store_32: "load_word e (store_word e 4 x) = (x :: uint32_t)"
  by (cases e) (simp_all add: load_word_def store_word_def le_word_le_bytes_32)

lemma load_store_64: "load_word e (store_word e 8 x) = (x :: uint64_t)"
  by (cases e) (simp_all add: load_word_def store_word_def le_word_le_bytes_64)

lemma length_store_word: "length (store_word e k x) = k"
  by (cases e) (simp_all add: store_word_def le_bytes_def)

lemma header_of_bytes_header_bytes: "header_of_bytes e (header_bytes e h) = h"
  by (simp add: header_of_bytes_def header_bytes_def length_store_word load_store_32 load_store_64)

lemma length_header_bytes: "length (header_bytes e h) = sizeof_MessageHeader"
  by (simp add: header_bytes_def length_store_word sizeof_MessageHeader_def)

text \<open>What \<open>send_message\<close> puts on the wire for a header is the same sixteen bytes on every
  host, each field with its most significant byte first; and reading these bytes back into
  a header and deserializing it gives the header that was sent.\<close>

lemma wire_header_big_endian:
  "header_bytes e (message_header_serialize e h)
     = rev (le_bytes 4 (h_type h)) @ rev (le_bytes 8 (h_length h)) @ rev (le_bytes 4 (h_flags h))"
  by (cases e)
    (simp_all add: header_bytes_def message_header_serialize_def store_word_def htonl_def
      htobe64_def le_bytes_bswap_32 le_bytes_bswap_64)

lemma wire_round_trip:
  "message_header_deserialize e
     (header_of_bytes e (header_bytes e (message_header_serialize e h))) = h"
  by (simp add: header_of_bytes_header_bytes message_header_deserialize_def
      message_header_serialize_def ntohl_htonl be64toh_htobe64)

section \<open>Receiving a message\<close>

lemma word64_of_nat_eq_iff:
  "k \<le> unat (L :: 64 word) \<Longrightarrow> (of_nat k = L) \<longleftrightarrow> k = unat L"
  using le_unat_uoi by fastforce

lemma sint32_bound: "sint (x :: 32 word) < 2 ^ 31"
  using sint_lt [of x] by simp

lemma of_nat_small_unat: "k < 2 ^ 31 \<Longrightarrow> unat (of_nat k :: 64 word) = k"
  by (simp add: unat_of_nat)

lemma sint_ucast_small:
  "unat (L :: 64 word) < 2 ^ 31 \<Longrightarrow> sint (ucast L :: 32 word) = int (unat L)"
proof -
  assume a: "unat L < 2 ^ 31"
  have b: "int (unat L) < 2 ^ 31"
    using a of_nat_less_iff [of "unat L" "2 ^ 31", where ?'a = int] by simp
  have c: "uint L = int (unat L)" by simp
  have b': "uint L < 2 ^ 31" by (subst c) (rule b)
  have nn: "0 \<le> uint L" by (rule uint_ge_0)
  have d: "uint (ucast L :: 32 word) = take_bit 32 (uint L)"
    by (simp add: unsigned_ucast_eq)
  have e: "take_bit 32 (uint L) = uint L"
    by (rule take_bit_int_eq_self) (use b' in simp_all)
  have f: "sint (ucast L :: 32 word) = signed_take_bit 31 (uint (ucast L :: 32 word))"
    by (simp add: sint_uint)
  have g: "signed_take_bit 31 (uint L) = uint L"
    by (rule signed_take_bit_int_eq_self) (use b' nn in linarith)+
  have "sint (ucast L :: 32 word) = uint L"
    by (simp only: f d e g)
  then show ?thesis by (simp only: c)
qed

lemma sys_recv_exact:
  assumes "sys_recv fd (unat L) w = ((r, bs), w')" and "r = L" and "L \<noteq> - 1"
  shows "\<exists>xs. w_reads w (w_nreads w) = IoBytes xs \<and> unat L \<le> length xs \<and> bs = take (unat L) xs"
proof (cases "w_reads w (w_nreads w)")
  case IoError
  with assms show ?thesis by (simp add: sys_recv_def Let_def)
next
  case (IoBytes xs)
  with assms have r: "r = of_nat (min (length xs) (unat L))" and bs: "bs = take (unat L) xs"
    by (simp_all add: sys_recv_def Let_def)
  have "min (length xs) (unat L) = unat L"
    using r assms(2) word64_of_nat_eq_iff [of "min (length xs) (unat L)" L] by simp
  then have "unat L \<le> length xs" by simp
  with IoBytes bs show ?thesis by simp
qed

lemma SSL_read_exact:
  assumes "SSL_read s (ucast L) w = ((r, bs), w')" and "r = L" and "L \<noteq> - 1"
  shows "\<exists>xs. w_reads w (w_nreads w) = IoBytes xs \<and> unat L \<le> length xs \<and> bs = take (unat L) xs"
proof -
  let ?num = "ucast L :: 32 word"
  have nonneg: "\<not> sint ?num < 0"
    using assms by (auto simp: SSL_read_def Let_def split: if_splits)
  show ?thesis
  proof (cases "w_reads w (w_nreads w)")
    case IoError
    with assms nonneg show ?thesis by (simp add: SSL_read_def Let_def)
  next
    case (IoBytes xs)
    let ?k = "min (length xs) (nat (sint ?num))"
    from IoBytes assms nonneg have r: "r = of_nat ?k" and bs: "bs = take (nat (sint ?num)) xs"
      by (simp_all add: SSL_read_def Let_def)
    have "nat (sint ?num) < 2 ^ 31"
      using sint32_bound [of ?num] nonneg by simp
    then have k: "?k < 2 ^ 31" by simp
    have "unat L = ?k"
      using r assms(2) of_nat_small_unat [OF k] by simp
    then have small: "unat L < 2 ^ 31" using k by simp
    have "nat (sint ?num) = unat L"
      using sint_ucast_small [OF small] by simp
    with \<open>unat L = ?k\<close> bs IoBytes show ?thesis by simp
  qed
qed

lemma net_read_exact:
  assumes "net_read fd ssl is_ssl L w = ((r, bs), w')" and "r = L" and "L \<noteq> - 1"
  shows "\<exists>xs. w_reads w (w_nreads w) = IoBytes xs \<and> unat L \<le> length xs \<and> bs = take (unat L) xs"
  using assms sys_recv_exact SSL_read_exact
  by (auto simp: net_read_def split: option.splits if_splits)

lemma net_read_frame:
  assumes "net_read fd ssl is_ssl n w = (x, w')"
  shows "w_nreads w' = Suc (w_nreads w) \<and> w_reads w' = w_reads w
    \<and> w_allocs w' = w_allocs w \<and> w_nallocs w' = w_nallocs w"
  using assms
  by (auto simp: net_read_def sys_recv_def SSL_read_def emit_def Let_def
      split: option.splits if_splits io_result.splits)

lemma net_read_full:
  assumes "w_reads w (w_nreads w) = IoBytes xs" and "unat L \<le> length xs" and "unat L < 2 ^ 31"
  shows "fst (net_read fd ssl is_ssl L w) = (L, take (unat L) xs)"
proof -
  have "nat (sint (ucast L :: 32 word)) = unat L" "\<not> sint (ucast L :: 32 word) < 0"
    using sint_ucast_small [OF assms(3)] by simp_all
  with assms show ?thesis
    by (simp add: net_read_def sys_recv_def SSL_read_def emit_def Let_def min_absorb2
      split: option.splits)
qed

lemma receive_message_header_failed:
  assumes "net_read fd ssl is_ssl 16 w = ((r1, hb), w1)" and "r1 \<noteq> 16"
  shows "receive_message fd ssl is_ssl m w = ((- 1, m), w1)" and "offered_header w = None"
proof -
  show "receive_message fd ssl is_ssl m w = ((- 1, m), w1)"
    using assms by (simp add: receive_message_def sizeof_MessageHeader_def)
  show "offered_header w = None"
  proof (cases "w_reads w (w_nreads w)")
    case IoError
    then show ?thesis by (simp add: offered_header_def)
  next
    case (IoBytes xs)
    show ?thesis
    proof (cases "16 \<le> length xs")
      case True
      have "fst (net_read fd ssl is_ssl 16 w) = (16, take (unat (16 :: 64 word)) xs)"
        by (rule net_read_full [OF IoBytes]) (use True in simp_all)
      with assms show ?thesis by simp
    next
      case False
      with IoBytes show ?thesis by (simp add: offered_header_def sizeof_MessageHeader_def)
    qed
  qed
qed

lemma receive_message_header_ok:
  assumes "net_read fd ssl is_ssl 16 w = ((16, hb), w1)"
  shows "offered_header w = Some (message_header_deserialize (w_endian w)
           (header_of_bytes (w_endian w) hb))"
proof -
  obtain xs where "w_reads w (w_nreads w) = IoBytes xs" "unat (16 :: 64 word) \<le> length xs"
    "hb = take (unat (16 :: 64 word)) xs"
    using net_read_exact [OF assms] by auto
  then show ?thesis by (simp add: offered_header_def sizeof_MessageHeader_def)
qed

lemma sys_malloc_result:
  "sys_malloc n w = (w_allocs w (w_nallocs w) n, w\<lparr>w_nallocs := Suc (w_nallocs w)\<rparr>)"
  by (simp add: sys_malloc_def)

lemma receive_message_cases:
  assumes sane: "malloc_sane w"
    and run: "receive_message fd ssl is_ssl m w = ((r, m'), w')"
  shows "(offered_header w = None \<and> r = - 1 \<and> m' = m)
    \<or> (\<exists>hd. offered_header w = Some hd \<and> h_length hd = 0 \<and> r = 0
          \<and> m' = m\<lparr>header := hd, payload := None, payload_size := 0\<rparr>)
    \<or> (\<exists>hd. offered_header w = Some hd \<and> 0 < h_length hd \<and> r = - 1
          \<and> m' = m\<lparr>header := hd, payload := None, payload_size := 0\<rparr>)
    \<or> (\<exists>hd pb. offered_header w = Some hd \<and> 0 < h_length hd
          \<and> w_allocs w (w_nallocs w) (h_length hd)
          \<and> offered_payload w (unat (h_length hd)) = Some pb \<and> r = 0
          \<and> m' = m\<lparr>header := hd, payload := Some pb, payload_size := h_length hd\<rparr>)"
proof -
  obtain r1 hb w1 where rd1: "net_read fd ssl is_ssl 16 w = ((r1, hb), w1)"
    by (metis surj_pair)
  show ?thesis
  proof (cases "r1 = 16")
    case False
    from receive_message_header_failed(1) [OF rd1 False, of m]
      receive_message_header_failed(2) [OF rd1 False] run
    show ?thesis by simp
  next
    case True
    define hd where "hd = message_header_deserialize (w_endian w) (header_of_bytes (w_endian w) hb)"
    define m1 where "m1 = m\<lparr>header := hd, payload := None, payload_size := 0\<rparr>"
    have off: "offered_header w = Some hd"
      using receive_message_header_ok [of fd ssl is_ssl w hb w1] rd1 True by (simp add: hd_def)
    have fr1: "w_nreads w1 = Suc (w_nreads w)" "w_reads w1 = w_reads w"
      "w_allocs w1 = w_allocs w" "w_nallocs w1 = w_nallocs w"
      using net_read_frame [OF rd1] by simp_all
    show ?thesis
    proof (cases "0 < h_length hd")
      case False
      then have z: "h_length hd = 0" by (simp add: word_gt_0)
      have "receive_message fd ssl is_ssl m w = ((0, m1), w1)"
        using rd1 True z
        by (simp add: receive_message_def sizeof_MessageHeader_def Let_def hd_def m1_def)
      with run off z show ?thesis by (auto simp: m1_def)
    next
      case pos: True
      let ?L = "h_length hd"
      let ?w2 = "w1\<lparr>w_nallocs := Suc (w_nallocs w1)\<rparr>"
      show ?thesis
      proof (cases "w_allocs w (w_nallocs w) ?L")
        case False
        have "receive_message fd ssl is_ssl m w = ((- 1, m1), ?w2)"
          using rd1 True pos False fr1
          by (simp add: receive_message_def sizeof_MessageHeader_def Let_def
              sys_malloc_result hd_def [symmetric] m1_def)
        with run off pos show ?thesis by (auto simp: m1_def)
      next
        case ok: True
        have ne: "?L \<noteq> - 1" using ok sane by (auto simp: malloc_sane_def)
        obtain r2 pb w3 where rd2: "net_read fd ssl is_ssl ?L ?w2 = ((r2, pb), w3)"
          by (metis surj_pair)
        show ?thesis
        proof (cases "r2 = ?L")
          case False
          have "receive_message fd ssl is_ssl m w = ((- 1, m1), w3)"
            using rd1 True pos ok fr1 rd2 False
            by (simp add: receive_message_def sizeof_MessageHeader_def Let_def
                sys_malloc_result hd_def [symmetric] m1_def)
          with run off pos show ?thesis by (auto simp: m1_def)
        next
          case full: True
          obtain xs where xs: "w_reads ?w2 (w_nreads ?w2) = IoBytes xs"
            "unat ?L \<le> length xs" "pb = take (unat ?L) xs"
            using net_read_exact [OF rd2 full ne] by auto
          have offp: "offered_payload w (unat ?L) = Some pb"
            using xs fr1 by (simp add: offered_payload_def)
          have len: "length pb = unat ?L" using xs by simp
          have "receive_message fd ssl is_ssl m w =
              ((0, m\<lparr>header := hd, payload := Some pb, payload_size := ?L\<rparr>), w3)"
            using rd1 True pos ok fr1 rd2 full len
            by (simp add: receive_message_def sizeof_MessageHeader_def Let_def
                sys_malloc_result hd_def [symmetric])
          with run off pos ok offp show ?thesis by auto
        qed
      qed
    qed
  qed
qed

text \<open>C2. Exact-length framing. Whenever \<open>receive_message\<close> returns success, the header
  it stored is the one received, \<open>payload_size\<close> equals the declared length, and the
  payload is exactly the declared number of bytes, all delivered by the transport. When
  the header arrived but the allocation fails or the transport cannot deliver the declared
  number of payload bytes (short read, peer close, error), the call returns \<open>-1\<close> and the
  output message has a null payload and \<open>payload_size\<close> 0; when the header itself did not
  arrive the call returns \<open>-1\<close> and leaves the output message untouched. The allocator is
  assumed never to grant a request for \<open>SIZE_MAX\<close> bytes.\<close>

theorem receive_message_exact_or_nothing:
  assumes "malloc_sane w" and "receive_message fd ssl is_ssl m w = ((r, m'), w')"
  shows "(r = 0 \<longrightarrow>
            offered_header w = Some (header m')
          \<and> payload_size m' = h_length (header m')
          \<and> length (payload_bytes m') = unat (h_length (header m'))
          \<and> (0 < h_length (header m') \<longrightarrow>
               offered_payload w (unat (h_length (header m'))) = Some (payload_bytes m')))
       \<and> (r \<noteq> 0 \<longrightarrow> r = - 1 \<and> (m' = m \<or> payload m' = None \<and> payload_size m' = 0))
       \<and> (offered_header w = None \<longrightarrow> r = - 1 \<and> m' = m)
       \<and> (\<forall>hd. offered_header w = Some hd \<and> 0 < h_length hd
              \<and> (\<not> w_allocs w (w_nallocs w) (h_length hd)
                   \<or> offered_payload w (unat (h_length hd)) = None)
            \<longrightarrow> r = - 1 \<and> payload m' = None \<and> payload_size m' = 0)"
  using receive_message_cases [OF assms]
  by (elim disjE exE conjE)
    (auto simp: payload_bytes_def offered_payload_def split: io_result.splits if_splits)

lemma hi_frame_received:
  "fst (receive_message 5 None 0 blank_message hi_frame_world) =
     (0, \<lparr>header = \<lparr>h_type = 1, h_length = 2, h_flags = 0\<rparr>, payload = Some [0x68, 0x69], payload_size = 2\<rparr>)"
  by (simp add: receive_message_def net_read_def sys_recv_def sys_malloc_def emit_def Let_def
      hi_frame_world_def blank_message_def sizeof_MessageHeader_def
      message_header_deserialize_def header_of_bytes_def load_word_def le_word_def
      ntohl_def be64toh_def bswap_32_def bswap_64_def)

lemma hi_frame_env:
  "malloc_sane hi_frame_world" "offered_payload hi_frame_world 2 = Some [0x68, 0x69]"
  by (simp_all add: malloc_sane_def offered_payload_def hi_frame_world_def)

lemma short_frame_env:
  "malloc_sane short_frame_world" "offered_payload short_frame_world 2 = None"
  "offered_header short_frame_world = Some \<lparr>h_type = 1, h_length = 2, h_flags = 0\<rparr>"
  by (simp_all add: malloc_sane_def offered_payload_def offered_header_def short_frame_world_def
      hi_frame_world_def sizeof_MessageHeader_def
      message_header_deserialize_def header_of_bytes_def load_word_def le_word_def
      ntohl_def be64toh_def bswap_32_def bswap_64_def)

text \<open>A two-byte frame received in full, and the same frame cut after one payload byte.\<close>

theorem receive_message_exact_or_nothing_witness:
  "malloc_sane hi_frame_world
   \<and> fst (fst (receive_message 5 None 0 blank_message hi_frame_world)) = 0
   \<and> offered_payload hi_frame_world 2
       = Some (payload_bytes (snd (fst (receive_message 5 None 0 blank_message hi_frame_world))))
   \<and> malloc_sane short_frame_world
   \<and> offered_payload short_frame_world 2 = None
   \<and> fst (fst (receive_message 5 None 0 blank_message short_frame_world)) = - 1
   \<and> payload (snd (fst (receive_message 5 None 0 blank_message short_frame_world))) = None
   \<and> payload_size (snd (fst (receive_message 5 None 0 blank_message short_frame_world))) = 0"
proof -
  define r m' w' where "r = fst (fst (receive_message 5 None 0 blank_message hi_frame_world))"
    and "m' = snd (fst (receive_message 5 None 0 blank_message hi_frame_world))"
    and "w' = snd (receive_message 5 None 0 blank_message hi_frame_world)"
  define q n' v' where "q = fst (fst (receive_message 5 None 0 blank_message short_frame_world))"
    and "n' = snd (fst (receive_message 5 None 0 blank_message short_frame_world))"
    and "v' = snd (receive_message 5 None 0 blank_message short_frame_world)"
  have a: "receive_message 5 None 0 blank_message hi_frame_world = ((r, m'), w')"
    by (simp add: r_def m'_def w'_def)
  have b: "receive_message 5 None 0 blank_message short_frame_world = ((q, n'), v')"
    by (simp add: q_def n'_def v'_def)
  note ok = receive_message_exact_or_nothing [OF hi_frame_env(1) a]
  note bad = receive_message_exact_or_nothing [OF short_frame_env(1) b]
  have r0: "r = 0" and hdr: "h_length (header m') = 2"
    by (simp_all add: r_def m'_def hi_frame_received)
  from ok r0 have "0 < h_length (header m') \<longrightarrow>
      offered_payload hi_frame_world (unat (h_length (header m'))) = Some (payload_bytes m')"
    by blast
  with hdr have good: "offered_payload hi_frame_world 2 = Some (payload_bytes m')"
    by simp
  define hd2 where "hd2 = \<lparr>h_type = 1, h_length = 2 :: uint64_t, h_flags = 0\<rparr>"
  note bad4 = bad [THEN conjunct2, THEN conjunct2, THEN conjunct2]
  have "offered_header short_frame_world = Some hd2 \<and> 0 < h_length hd2
        \<and> (\<not> w_allocs short_frame_world (w_nallocs short_frame_world) (h_length hd2)
            \<or> offered_payload short_frame_world (unat (h_length hd2)) = None)
      \<longrightarrow> q = - 1 \<and> payload n' = None \<and> payload_size n' = 0"
    by (rule spec [OF bad4])
  moreover have "offered_header short_frame_world = Some hd2" "0 < h_length hd2"
    "offered_payload short_frame_world (unat (h_length hd2)) = None"
    using short_frame_env by (simp_all add: hd2_def)
  ultimately have "q = - 1 \<and> payload n' = None \<and> payload_size n' = 0"
    by blast
  with good r0 hi_frame_env short_frame_env show ?thesis
    by (simp add: r_def m'_def q_def n'_def)
qed

section \<open>The constructors\<close>

text \<open>C6 (as amended). Every message built by \<open>message_create_text\<close> or
  \<open>message_create_error\<close> whose payload allocation did not fail (the length is 0, or the
  allocator granted the request) has \<open>header.length = payload_size\<close>; and the message built
  by \<open>message_create_ack\<close> has type Ack, flags None, length 0, a null payload and
  \<open>payload_size\<close> 0.\<close>

theorem constructors_length_invariant:
  assumes "len = 0 \<or> alloc len"
  shows "h_length (header (message_create_text alloc bs len))
           = payload_size (message_create_text alloc bs len)
       \<and> h_length (header (message_create_error alloc bs len))
           = payload_size (message_create_error alloc bs len)
       \<and> h_length (header message_create_ack) = payload_size message_create_ack
       \<and> h_type (header message_create_ack) = MSG_TYPE_ACK
       \<and> h_flags (header message_create_ack) = MSG_FLAGS_NONE
       \<and> h_length (header message_create_ack) = 0
       \<and> payload message_create_ack = None
       \<and> payload_size message_create_ack = 0"
  using assms
  by (auto simp: message_create_text_def message_create_error_def message_create_ack_def Let_def
      word_gt_0)

theorem constructors_length_invariant_witness:
  "(2 = (0 :: size_t) \<or> (\<lambda>n. n = 2) (2 :: size_t))
   \<and> message_create_text (\<lambda>n. n = 2) [0x68, 0x69] 2
       = \<lparr>header = \<lparr>h_type = 1, h_length = 2, h_flags = 0\<rparr>,
          payload = Some [0x68, 0x69], payload_size = 2\<rparr>
   \<and> h_length (header (message_create_text (\<lambda>n. n = 2) [0x68, 0x69] 2))
       = payload_size (message_create_text (\<lambda>n. n = 2) [0x68, 0x69] 2)"
  using constructors_length_invariant [of 2 "\<lambda>n. n = 2" "[0x68, 0x69]"]
  by (simp add: message_create_text_def MSG_TYPE_TEXT_def MSG_FLAGS_NONE_def)

text \<open>When the allocation fails for a non-empty text, the constructor returns a message whose
  header still declares the requested length while \<open>payload_size\<close> is 0: the invariant of C6
  as stated does not hold for every constructed message.\<close>

theorem constructor_allocation_failure_counterexample:
  "h_length (header (message_create_text alloc_never [0x68, 0x69] 2)) = 2
   \<and> payload_size (message_create_text alloc_never [0x68, 0x69] 2) = 0
   \<and> h_length (header (message_create_text alloc_never [0x68, 0x69] 2))
       \<noteq> payload_size (message_create_text alloc_never [0x68, 0x69] 2)"
  by (simp add: message_create_text_def alloc_never_def)

section \<open>The connection table\<close>

lemma length_shift_clients: "length (shift_clients i count cs) = length cs"
proof (induction i count cs rule: shift_clients.induct)
  case (1 i count cs)
  show ?case
  proof (cases "i < count - 1")
    case True
    with "1" show ?thesis by (subst shift_clients.simps) simp
  next
    case False
    then show ?thesis by (subst shift_clients.simps) simp
  qed
qed

lemma nth_shift_clients:
  "count \<le> length cs \<Longrightarrow> j < length cs \<Longrightarrow>
   shift_clients i count cs ! j = (if i \<le> j \<and> j < count - 1 then cs ! (j + 1) else cs ! j)"
proof (induction i count cs arbitrary: j rule: shift_clients.induct)
  case (1 i count cs)
  show ?case
  proof (cases "i < count - 1")
    case True
    have "shift_clients i count cs ! j = shift_clients (i + 1) count (cs[i := cs ! (i + 1)]) ! j"
      using True by (subst shift_clients.simps) simp
    also have "\<dots> = (if i + 1 \<le> j \<and> j < count - 1 then cs[i := cs ! (i + 1)] ! (j + 1)
                      else cs[i := cs ! (i + 1)] ! j)"
      using "1.IH" [OF True, of j] "1.prems" by simp
    also have "\<dots> = (if i \<le> j \<and> j < count - 1 then cs ! (j + 1) else cs ! j)"
      using True "1.prems" by (auto simp: nth_list_update)
    finally show ?thesis .
  next
    case False
    then show ?thesis by (subst shift_clients.simps) auto
  qed
qed

lemma take_shift_clients:
  assumes "i < count" and "count \<le> length cs"
  shows "take (count - 1) (shift_clients i count cs) = take i cs @ drop (i + 1) (take count cs)"
proof (rule nth_equalityI)
  show "length (take (count - 1) (shift_clients i count cs))
      = length (take i cs @ drop (i + 1) (take count cs))"
    using assms by (simp add: length_shift_clients)
next
  fix j assume "j < length (take (count - 1) (shift_clients i count cs))"
  then have j: "j < count - 1" by simp
  with assms have jl: "j < length cs" by simp
  show "take (count - 1) (shift_clients i count cs) ! j
      = (take i cs @ drop (i + 1) (take count cs)) ! j"
    using j jl assms nth_shift_clients [OF assms(2) jl, of i]
    by (auto simp: nth_append)
qed

lemma add_client_wf:
  assumes "server_wf server"
  shows "server_wf (fst (add_client new_fd new_ssl server w))"
  using assms
  by (auto simp: add_client_def server_wf_def sys_malloc_def Let_def split: if_splits)

lemma remove_client_wf:
  assumes "server_wf server"
  shows "server_wf (fst (remove_client index server w))"
  using assms
  by (auto simp: remove_client_def server_wf_def Let_def length_shift_clients)

text \<open>C10. For an index below \<open>client_count\<close>, \<open>remove_client\<close> deletes exactly the entry at
  that index from the live table, keeps the other entries in their order (so each
  surviving connection still appears exactly once), decrements \<open>client_count\<close> and closes
  the removed descriptor; for an index at or above \<open>client_count\<close> it changes nothing at
  all.\<close>

theorem remove_client_table:
  assumes "server_wf server"
  shows "(index < client_count server \<longrightarrow>
            table (fst (remove_client index server w))
              = take index (table server) @ drop (index + 1) (table server)
          \<and> client_count (fst (remove_client index server w)) = client_count server - 1
          \<and> (distinct (table server) \<longrightarrow>
                distinct (table (fst (remove_client index server w)))
              \<and> set (table (fst (remove_client index server w)))
                  = set (table server) - {table server ! index})
          \<and> last (w_trace (snd (remove_client index server w)))
              = EvClose (cc_fd (table server ! index)))
       \<and> (client_count server \<le> index \<longrightarrow> remove_client index server w = (server, w))"
proof (intro conjI impI)
  assume "client_count server \<le> index"
  then show "remove_client index server w = (server, w)"
    by (simp add: remove_client_def)
next
  assume lt: "index < client_count server"
  from assms have len: "client_count server \<le> length (clients server)"
    by (simp add: server_wf_def)
  show tab: "table (fst (remove_client index server w))
      = take index (table server) @ drop (index + 1) (table server)"
    using lt take_shift_clients [OF lt len]
    by (simp add: remove_client_def table_def Let_def min_absorb2)
  show "client_count (fst (remove_client index server w)) = client_count server - 1"
    using lt by (simp add: remove_client_def Let_def)
  show "last (w_trace (snd (remove_client index server w))) = EvClose (cc_fd (table server ! index))"
    using lt by (simp add: remove_client_def Let_def emit_def table_def)
  assume d: "distinct (table server)"
  have ilt: "index < length (table server)" using lt len by (simp add: table_def)
  have split: "table server = take index (table server) @ table server ! index
      # drop (index + 1) (table server)"
    using ilt by (simp add: id_take_nth_drop)
  have d': "distinct (take index (table server) @ table server ! index
      # drop (index + 1) (table server))"
    using d split by simp
  show "distinct (table (fst (remove_client index server w)))"
    using d' by (simp add: tab)
  have "set (table server) = set (take index (table server)) \<union> {table server ! index}
      \<union> set (drop (index + 1) (table server))"
    by (subst split) auto
  moreover have "table server ! index \<notin> set (take index (table server))"
    "table server ! index \<notin> set (drop (index + 1) (table server))"
    using d' by auto
  ultimately show "set (table (fst (remove_client index server w)))
      = set (table server) - {table server ! index}"
    by (auto simp: tab)
qed

theorem remove_client_table_witness:
  "server_wf three_clients
   \<and> table three_clients = [conn 5, conn 6, conn 7]
   \<and> table (fst (remove_client 1 three_clients hi_frame_world)) = [conn 5, conn 7]
   \<and> client_count (fst (remove_client 1 three_clients hi_frame_world)) = 2
   \<and> remove_client 3 three_clients hi_frame_world = (three_clients, hi_frame_world)"
proof -
  have wf: "server_wf three_clients"
    by (simp add: server_wf_def three_clients_def)
  have t: "table three_clients = [conn 5, conn 6, conn 7]"
    by (simp add: table_def three_clients_def)
  have c: "client_count three_clients = 3"
    by (simp add: three_clients_def)
  from remove_client_table [OF wf, of 1 hi_frame_world] remove_client_table [OF wf, of 3 hi_frame_world]
  show ?thesis using wf t c by simp
qed

section \<open>Handling a client message\<close>

lemma ack_header_bytes:
  "header_bytes e (message_header_serialize e (header message_create_ack)) = ack_wire"
  by (cases e)
    (simp_all add: header_bytes_def message_header_serialize_def message_create_ack_def
      MSG_TYPE_ACK_def MSG_FLAGS_NONE_def store_word_def le_bytes_def htonl_def htobe64_def
      bswap_32_def bswap_64_def ack_wire_def upt_rec)

lemma send_ack_world:
  "snd (send_message (cc_fd c) (cc_ssl c) (cc_is_ssl c) message_create_ack w)
     = emit (ack_send_event c) (w\<lparr>w_nwrites := Suc (w_nwrites w)\<rparr>)"
proof -
  have len: "length ack_wire = 16" by (simp add: ack_wire_def)
  have pl: "payload message_create_ack = None" by (simp add: message_create_ack_def)
  show ?thesis
    by (simp add: send_message_def net_write_def sys_send_def SSL_write_def Let_def
        ack_header_bytes sizeof_MessageHeader_def ack_send_event_def len pl
        split: option.splits send_result.splits prod.splits)
qed

lemma net_read_trace:
  assumes "net_read f s i n w = (x, w')"
  shows "sends_of w' = sends_of w \<and> closes_of w' = closes_of w
    \<and> w_nwrites w' = w_nwrites w \<and> w_writes w' = w_writes w"
  using assms
  by (auto simp: net_read_def sys_recv_def SSL_read_def emit_def Let_def sends_of_def closes_of_def
      split: option.splits if_splits io_result.splits)

lemma receive_message_trace:
  assumes "receive_message f s i m w = (x, w')"
  shows "sends_of w' = sends_of w \<and> closes_of w' = closes_of w
    \<and> w_nwrites w' = w_nwrites w \<and> w_writes w' = w_writes w"
proof -
  have m: "sends_of (snd (sys_malloc n v)) = sends_of v \<and> closes_of (snd (sys_malloc n v)) = closes_of v
    \<and> w_nwrites (snd (sys_malloc n v)) = w_nwrites v \<and> w_writes (snd (sys_malloc n v)) = w_writes v"
    for n v
    by (simp add: sys_malloc_def sends_of_def closes_of_def)
  show ?thesis
    using assms
    apply (simp add: receive_message_def Let_def split: prod.splits if_splits)
    apply (auto dest!: net_read_trace simp: sys_malloc_def sends_of_def closes_of_def)
    done
qed

lemma handle_client_message_received:
  assumes "receive_message (cc_fd (clients server ! client_index))
             (cc_ssl (clients server ! client_index))
             (cc_is_ssl (clients server ! client_index)) local_Message w = ((0, msg), w1)"
  shows "fst (handle_client_message client_index handler server w)
           = record_metrics (w_round w) (timeval_seconds (w_round w) (w_clock w1 (w_nclock w1)))
           (payload_size msg) server"
    and "sends_of (snd (handle_client_message client_index handler server w))
           = sends_of w @ (if h_type (header msg) \<noteq> MSG_TYPE_ACK
                           then [ack_send_event (clients server ! client_index)] else [])"
    and "closes_of (snd (handle_client_message client_index handler server w)) = closes_of w"
    and "w_nwrites (snd (handle_client_message client_index handler server w))
           = w_nwrites w + (if h_type (header msg) \<noteq> MSG_TYPE_ACK then 1 else 0)"
proof -
  note tr = receive_message_trace [OF assms]
  let ?c = "clients server ! client_index"
  let ?w2 = "w1\<lparr>w_nclock := Suc (w_nclock w1)\<rparr>"
  let ?w3 = "if handler then emit (EvHandler (cc_fd ?c) msg) ?w2 else ?w2"
  have w3: "sends_of ?w3 = sends_of w" "closes_of ?w3 = closes_of w" "w_nwrites ?w3 = w_nwrites w"
    using tr by (simp_all add: sends_of_def closes_of_def emit_def)
  have run: "handle_client_message client_index handler server w
      = (record_metrics (w_round w) (timeval_seconds (w_round w) (w_clock w1 (w_nclock w1)))
           (payload_size msg) server,
         if h_type (header msg) \<noteq> MSG_TYPE_ACK
         then snd (send_message (cc_fd ?c) (cc_ssl ?c) (cc_is_ssl ?c) message_create_ack ?w3)
         else ?w3)"
    using assms
    by (simp add: handle_client_message_def Let_def gettimeofday_def split: prod.splits)
  show "fst (handle_client_message client_index handler server w)
      = record_metrics (w_round w) (timeval_seconds (w_round w) (w_clock w1 (w_nclock w1)))
           (payload_size msg) server"
    by (simp add: run)
  show "sends_of (snd (handle_client_message client_index handler server w))
      = sends_of w @ (if h_type (header msg) \<noteq> MSG_TYPE_ACK then [ack_send_event ?c] else [])"
    using w3 by (simp add: run send_ack_world sends_of_def emit_def ack_send_event_def
        split: option.splits)
  show "closes_of (snd (handle_client_message client_index handler server w)) = closes_of w"
    using w3 by (simp add: run send_ack_world closes_of_def emit_def ack_send_event_def
        split: option.splits)
  show "w_nwrites (snd (handle_client_message client_index handler server w))
      = w_nwrites w + (if h_type (header msg) \<noteq> MSG_TYPE_ACK then 1 else 0)"
    using w3 by (simp add: run send_ack_world emit_def)
qed

lemma record_metrics_table:
  "clients (record_metrics rnd now n server) = clients server"
  "client_count (record_metrics rnd now n server) = client_count server"
  "client_capacity (record_metrics rnd now n server) = client_capacity server"
  by (simp_all add: record_metrics_def Let_def)

text \<open>C3. For every message the server receives successfully on a connection, the write
  calls that \<open>handle_client_message\<close> makes are: exactly one, of the sixteen header bytes of
  a synthesized Ack and on that same connection (its TLS session when it has one, its
  descriptor otherwise), when the type of the message is not Ack; none at all when the
  type is Ack.\<close>

theorem handle_client_message_acks_once:
  assumes "receive_message (cc_fd (clients server ! client_index))
             (cc_ssl (clients server ! client_index))
             (cc_is_ssl (clients server ! client_index)) local_Message w = ((0, msg), w1)"
  shows "sends_of (snd (handle_client_message client_index handler server w))
           = sends_of w @ (if h_type (header msg) \<noteq> MSG_TYPE_ACK
                           then [ack_send_event (clients server ! client_index)] else [])
       \<and> w_nwrites (snd (handle_client_message client_index handler server w))
           = w_nwrites w + (if h_type (header msg) \<noteq> MSG_TYPE_ACK then 1 else 0)"
  using handle_client_message_received(2,4) [OF assms] by simp

lemma hi_frame_one_client:
  "receive_message (cc_fd (clients one_client ! 0)) (cc_ssl (clients one_client ! 0))
     (cc_is_ssl (clients one_client ! 0)) local_Message hi_frame_world
   = ((0, \<lparr>header = \<lparr>h_type = 1, h_length = 2, h_flags = 0\<rparr>, payload = Some [0x68, 0x69],
           payload_size = 2\<rparr>),
      snd (receive_message 5 None 0 blank_message hi_frame_world))"
proof -
  have args: "cc_fd (clients one_client ! 0) = 5" "cc_ssl (clients one_client ! 0) = None"
    "cc_is_ssl (clients one_client ! 0) = 0" "local_Message = blank_message"
    by (simp_all add: one_client_def conn_def local_Message_def blank_message_def)
  show ?thesis
    unfolding args by (rule prod_eqI) (simp_all add: hi_frame_received)
qed

lemma ack_frame_one_client:
  "receive_message (cc_fd (clients one_client ! 0)) (cc_ssl (clients one_client ! 0))
     (cc_is_ssl (clients one_client ! 0)) local_Message ack_frame_world
   = ((0, \<lparr>header = \<lparr>h_type = 3, h_length = 0, h_flags = 0\<rparr>, payload = None, payload_size = 0\<rparr>),
      emit (EvRecv 5 16) (ack_frame_world\<lparr>w_nreads := 1\<rparr>))"
  by (simp add: receive_message_def net_read_def sys_recv_def emit_def Let_def
      ack_frame_world_def hi_frame_world_def one_client_def conn_def local_Message_def
      sizeof_MessageHeader_def ack_wire_def
      message_header_deserialize_def header_of_bytes_def load_word_def le_word_def
      ntohl_def be64toh_def bswap_32_def bswap_64_def)

theorem handle_client_message_acks_once_witness:
  "sends_of (snd (handle_client_message 0 True one_client hi_frame_world)) = [EvSend 5 ack_wire]
   \<and> sends_of (snd (handle_client_message 0 True one_client ack_frame_world)) = []"
  using handle_client_message_acks_once [OF hi_frame_one_client, of True]
    handle_client_message_acks_once [OF ack_frame_one_client, of True]
  by (simp add: MSG_TYPE_ACK_def ack_send_event_def one_client_def conn_def sends_of_def
      hi_frame_world_def ack_frame_world_def)

lemma short_count_not_header_size:
  assumes "k < n" and "n \<le> 16"
  shows "(of_nat k :: ssize_t) \<noteq> 16"
proof
  assume "(of_nat k :: ssize_t) = 16"
  then have "unat (of_nat k :: ssize_t) = unat (16 :: ssize_t)" by simp
  moreover have "unat (of_nat k :: ssize_t) = k"
    using assms by (simp add: unat_of_nat)
  ultimately show False using assms by simp
qed

lemma send_message_fails:
  assumes "write_returns_failure (w_writes v (w_nwrites v)) sizeof_MessageHeader"
  shows "fst (send_message f s i m v) = - 1"
proof -
  have len: "length (header_bytes e h) = 16" for e h
    using length_header_bytes [of e h] by (simp add: sizeof_MessageHeader_def)
  have short: "(of_nat (min k 16) :: ssize_t) \<noteq> 16" if "k < 16" for k
    using short_count_not_header_size [of "min k 16" 16] that by simp
  show ?thesis
  proof (cases "w_writes v (w_nwrites v)")
    case SendError
    then show ?thesis
      by (simp add: send_message_def net_write_def sys_send_def SSL_write_def Let_def
          sizeof_MessageHeader_def split: option.splits prod.splits)
  next
    case (SendCount k)
    then have k: "k < 16"
      using assms by (simp add: write_returns_failure_def sizeof_MessageHeader_def)
    show ?thesis
      using SendCount short [OF k]
      by (simp add: send_message_def net_write_def sys_send_def SSL_write_def Let_def
          sizeof_MessageHeader_def len split: option.splits prod.splits)
  qed
qed

lemma handle_client_message_receive_failed:
  assumes "receive_message (cc_fd (clients server ! client_index))
             (cc_ssl (clients server ! client_index))
             (cc_is_ssl (clients server ! client_index)) local_Message w = ((- 1, msg), w1)"
  shows "handle_client_message client_index handler server w = remove_client client_index server w1"
  using assms by (simp add: handle_client_message_def)

lemma handle_client_message_ack_world:
  assumes "receive_message (cc_fd (clients server ! client_index))
             (cc_ssl (clients server ! client_index))
             (cc_is_ssl (clients server ! client_index)) local_Message w = ((0, msg), w1)"
    and "h_type (header msg) \<noteq> MSG_TYPE_ACK"
  shows "snd (handle_client_message client_index handler server w)
           = snd (send_message (cc_fd (clients server ! client_index))
                    (cc_ssl (clients server ! client_index))
                    (cc_is_ssl (clients server ! client_index)) message_create_ack
                    (world_at_ack handler (clients server ! client_index) msg w1))"
    and "w_writes (world_at_ack handler (clients server ! client_index) msg w1) = w_writes w"
    and "w_nwrites (world_at_ack handler (clients server ! client_index) msg w1) = w_nwrites w"
proof -
  note tr = receive_message_trace [OF assms(1)]
  show "snd (handle_client_message client_index handler server w)
           = snd (send_message (cc_fd (clients server ! client_index))
                    (cc_ssl (clients server ! client_index))
                    (cc_is_ssl (clients server ! client_index)) message_create_ack
                    (world_at_ack handler (clients server ! client_index) msg w1))"
    using assms
    by (simp add: handle_client_message_def world_at_ack_def Let_def gettimeofday_def
        split: prod.splits)
  show "w_writes (world_at_ack handler (clients server ! client_index) msg w1) = w_writes w"
    using tr by (simp add: world_at_ack_def gettimeofday_def emit_def Let_def)
  show "w_nwrites (world_at_ack handler (clients server ! client_index) msg w1) = w_nwrites w"
    using tr by (simp add: world_at_ack_def gettimeofday_def emit_def Let_def)
qed

text \<open>C4 (as amended). When the write of the synthesized Ack returns a failure (\<open>-1\<close>, or a
  count short of the sixteen header bytes), \<open>send_message\<close> returns \<open>-1\<close> and
  \<open>handle_client_message\<close> ignores it: the call ends in the world that \<open>send_message\<close>
  leaves, the connection stays in the connection table and no descriptor or TLS session
  is closed by the call. A write that raises \<open>SIGPIPE\<close> does not return, so it is not among
  the failures spoken of here: the program does not handle the signal, and the process
  ends.\<close>

theorem ack_send_failure_ignored:
  assumes "receive_message (cc_fd (clients server ! client_index))
             (cc_ssl (clients server ! client_index))
             (cc_is_ssl (clients server ! client_index)) local_Message w = ((0, msg), w1)"
    and "h_type (header msg) \<noteq> MSG_TYPE_ACK"
    and "write_returns_failure (w_writes w (w_nwrites w)) sizeof_MessageHeader"
  shows "fst (send_message (cc_fd (clients server ! client_index))
                (cc_ssl (clients server ! client_index))
                (cc_is_ssl (clients server ! client_index)) message_create_ack
                (world_at_ack handler (clients server ! client_index) msg w1)) = - 1
       \<and> snd (handle_client_message client_index handler server w)
           = snd (send_message (cc_fd (clients server ! client_index))
                    (cc_ssl (clients server ! client_index))
                    (cc_is_ssl (clients server ! client_index)) message_create_ack
                    (world_at_ack handler (clients server ! client_index) msg w1))
       \<and> clients (fst (handle_client_message client_index handler server w)) = clients server
       \<and> client_count (fst (handle_client_message client_index handler server w))
           = client_count server
       \<and> table (fst (handle_client_message client_index handler server w)) = table server
       \<and> closes_of (snd (handle_client_message client_index handler server w)) = closes_of w
       \<and> w_nwrites (snd (handle_client_message client_index handler server w))
           = Suc (w_nwrites w)"
proof -
  note a = handle_client_message_ack_world [OF assms(1,2), of handler]
  have "write_returns_failure
          (w_writes (world_at_ack handler (clients server ! client_index) msg w1)
             (w_nwrites (world_at_ack handler (clients server ! client_index) msg w1)))
          sizeof_MessageHeader"
    using assms(3) by (simp only: a(2,3))
  from send_message_fails [OF this]
  have "fst (send_message (cc_fd (clients server ! client_index))
                (cc_ssl (clients server ! client_index))
                (cc_is_ssl (clients server ! client_index)) message_create_ack
                (world_at_ack handler (clients server ! client_index) msg w1)) = - 1" .
  then show ?thesis
    using handle_client_message_received [OF assms(1), of handler] assms(2) a(1)
    by (simp add: record_metrics_table table_def)
qed

lemma hi_frame_write_fails:
  "receive_message (cc_fd (clients one_client ! 0)) (cc_ssl (clients one_client ! 0))
     (cc_is_ssl (clients one_client ! 0)) local_Message (hi_frame_world\<lparr>w_writes := f\<rparr>)
   = ((0, \<lparr>header = \<lparr>h_type = 1, h_length = 2, h_flags = 0\<rparr>, payload = Some [0x68, 0x69],
           payload_size = 2\<rparr>),
      emit (EvRecv 5 2) ((emit (EvRecv 5 16) (hi_frame_world\<lparr>w_writes := f, w_nreads := 1\<rparr>))
        \<lparr>w_nallocs := 1, w_nreads := 2\<rparr>))"
  by (simp add: receive_message_def net_read_def sys_recv_def sys_malloc_def emit_def Let_def
      hi_frame_world_def one_client_def conn_def local_Message_def
      sizeof_MessageHeader_def
      message_header_deserialize_def header_of_bytes_def load_word_def le_word_def
      ntohl_def be64toh_def bswap_32_def bswap_64_def)

lemma hi_frame_send_fails:
  "receive_message (cc_fd (clients one_client ! 0)) (cc_ssl (clients one_client ! 0))
     (cc_is_ssl (clients one_client ! 0)) local_Message send_fails_world
   = ((0, \<lparr>header = \<lparr>h_type = 1, h_length = 2, h_flags = 0\<rparr>, payload = Some [0x68, 0x69],
           payload_size = 2\<rparr>),
      emit (EvRecv 5 2) ((emit (EvRecv 5 16) (send_fails_world\<lparr>w_nreads := 1\<rparr>))
        \<lparr>w_nallocs := 1, w_nreads := 2\<rparr>))"
  unfolding send_fails_world_def using hi_frame_write_fails [of "\<lambda>k. SendError"] by simp

lemma hi_frame_short_write:
  "receive_message (cc_fd (clients one_client ! 0)) (cc_ssl (clients one_client ! 0))
     (cc_is_ssl (clients one_client ! 0)) local_Message short_write_world
   = ((0, \<lparr>header = \<lparr>h_type = 1, h_length = 2, h_flags = 0\<rparr>, payload = Some [0x68, 0x69],
           payload_size = 2\<rparr>),
      emit (EvRecv 5 2) ((emit (EvRecv 5 16) (short_write_world\<lparr>w_nreads := 1\<rparr>))
        \<lparr>w_nallocs := 1, w_nreads := 2\<rparr>))"
  unfolding short_write_world_def using hi_frame_write_fails [of "\<lambda>k. SendCount 7"] by simp

theorem ack_send_failure_ignored_witness:
  "w_writes send_fails_world (w_nwrites send_fails_world) = SendError
   \<and> table (fst (handle_client_message 0 True one_client send_fails_world)) = [conn 5]
   \<and> closes_of (snd (handle_client_message 0 True one_client send_fails_world)) = []
   \<and> w_writes short_write_world (w_nwrites short_write_world) = SendCount 7
   \<and> table (fst (handle_client_message 0 True one_client short_write_world)) = [conn 5]
   \<and> closes_of (snd (handle_client_message 0 True one_client short_write_world)) = []"
proof -
  have t: "h_type (header \<lparr>header = \<lparr>h_type = 1, h_length = 2, h_flags = 0\<rparr>,
      payload = Some [0x68, 0x69], payload_size = 2\<rparr>) \<noteq> MSG_TYPE_ACK"
    by (simp add: MSG_TYPE_ACK_def)
  have f: "write_returns_failure (w_writes send_fails_world (w_nwrites send_fails_world))
      sizeof_MessageHeader"
    by (simp add: write_returns_failure_def send_fails_world_def)
  have s: "write_returns_failure (w_writes short_write_world (w_nwrites short_write_world))
      sizeof_MessageHeader"
    by (simp add: write_returns_failure_def short_write_world_def sizeof_MessageHeader_def)
  note a = ack_send_failure_ignored [OF hi_frame_send_fails t f, of True]
  note b = ack_send_failure_ignored [OF hi_frame_short_write t s, of True]
  have t1: "table one_client = [conn 5]"
    by (simp add: table_def one_client_def)
  have c1: "closes_of send_fails_world = []" "closes_of short_write_world = []"
    by (simp_all add: send_fails_world_def short_write_world_def hi_frame_world_def
        closes_of_def)
  have w1: "w_writes send_fails_world (w_nwrites send_fails_world) = SendError"
    "w_writes short_write_world (w_nwrites short_write_world) = SendCount 7"
    by (simp_all add: send_fails_world_def short_write_world_def)
  note ta = a [THEN conjunct2, THEN conjunct2, THEN conjunct2, THEN conjunct2, THEN conjunct1]
  note ca = a [THEN conjunct2, THEN conjunct2, THEN conjunct2, THEN conjunct2, THEN conjunct2,
      THEN conjunct1]
  note tb = b [THEN conjunct2, THEN conjunct2, THEN conjunct2, THEN conjunct2, THEN conjunct1]
  note cb = b [THEN conjunct2, THEN conjunct2, THEN conjunct2, THEN conjunct2, THEN conjunct2,
      THEN conjunct1]
  note ta ca tb cb
  then show ?thesis
    by (simp only: t1 c1 w1 simp_thms)
qed

text \<open>The claim as stated fails: the server receives the text frame \<open>hi\<close> from its one
  client, every write returns \<open>-1\<close>, so the Ack cannot be sent; after the call the client
  is still in the table and nothing has been closed.\<close>

theorem ack_send_failure_counterexample:
  "fst (send_message 5 None 0 message_create_ack send_fails_world) = - 1
   \<and> sends_of (snd (handle_client_message 0 True one_client send_fails_world))
       = [EvSend 5 ack_wire]
   \<and> client_count (fst (handle_client_message 0 True one_client send_fails_world)) = 1
   \<and> table (fst (handle_client_message 0 True one_client send_fails_world)) = [conn 5]
   \<and> closes_of (snd (handle_client_message 0 True one_client send_fails_world)) = []"
proof -
  have w: "write_returns_failure (w_writes send_fails_world (w_nwrites send_fails_world))
      sizeof_MessageHeader"
    by (simp add: write_returns_failure_def send_fails_world_def)
  note h = handle_client_message_received [OF hi_frame_send_fails, of True]
  have "sends_of (snd (handle_client_message 0 True one_client send_fails_world))
      = [EvSend 5 ack_wire]"
    using h(2) by (simp add: MSG_TYPE_ACK_def ack_send_event_def one_client_def conn_def
        sends_of_def send_fails_world_def hi_frame_world_def)
  moreover have "closes_of (snd (handle_client_message 0 True one_client send_fails_world)) = []"
    using h(3) by (simp add: closes_of_def send_fails_world_def hi_frame_world_def)
  moreover have "client_count (fst (handle_client_message 0 True one_client send_fails_world)) = 1"
    "table (fst (handle_client_message 0 True one_client send_fails_world)) = [conn 5]"
    using h(1) by (simp_all add: record_metrics_table table_def one_client_def)
  ultimately show ?thesis using send_message_fails [OF w] by simp
qed

section \<open>Metrics\<close>

lemma receipts_snoc:
  "receipts rnd (arrivals @ [(t, n)]) server
     = record_metrics rnd t n (receipts rnd arrivals server)"
  by (simp add: receipts_def)

lemma measured_ms_snoc:
  "ts \<noteq> [] \<Longrightarrow>
     measured_ms rnd (ts @ [t]) = measured_ms rnd ts @ [d_mul rnd (d_sub rnd t (last ts)) 1000]"
proof (induction ts)
  case Nil
  then show ?case by simp
next
  case (Cons a ts)
  then show ?case by (cases ts) (simp_all add: measured_ms_def)
qed

lemma length_measured_ms: "length (measured_ms rnd ts) = length ts - 1"
  by (simp add: measured_ms_def)

lemma running_sum_snoc: "running_sum rnd (ds @ [d]) = d_add rnd (running_sum rnd ds) d"
  by (simp add: running_sum_def)

lemma record_metrics_first:
  assumes "last_message_time s = 0"
  shows "last_message_time (record_metrics rnd t n s) = t"
    and "interval_count (record_metrics rnd t n s) = interval_count s"
    and "total_interval_ms (record_metrics rnd t n s) = total_interval_ms s"
    and "total_messages (record_metrics rnd t n s) = total_messages s + 1"
  using assms by (simp_all add: record_metrics_def)

lemma record_metrics_next:
  assumes "0 < last_message_time s"
    and "d = d_mul rnd (d_sub rnd t (last_message_time s)) 1000"
  shows "last_message_time (record_metrics rnd t n s) = t"
    and "interval_count (record_metrics rnd t n s) = interval_count s + 1"
    and "total_interval_ms (record_metrics rnd t n s) = d_add rnd (total_interval_ms s) d"
    and "total_messages (record_metrics rnd t n s) = total_messages s + 1"
    and "min_interval_ms (record_metrics rnd t n s)
           = (if interval_count s = 0 \<or> d < min_interval_ms s then d else min_interval_ms s)"
    and "max_interval_ms (record_metrics rnd t n s)
           = (if interval_count s = 0 \<or> d > max_interval_ms s then d else max_interval_ms s)"
  using assms by (simp_all add: record_metrics_def Let_def)

lemma receipts_invariant:
  assumes init: "last_message_time server = 0" "interval_count server = 0"
      "total_interval_ms server = 0"
    and pos: "\<forall>t \<in> set (map fst arrivals). 0 < t"
    and ne: "arrivals \<noteq> []"
  shows "last_message_time (receipts rnd arrivals server) = last (map fst arrivals)
    \<and> interval_count (receipts rnd arrivals server) = length arrivals - 1
    \<and> total_interval_ms (receipts rnd arrivals server)
        = running_sum rnd (measured_ms rnd (map fst arrivals))
    \<and> total_messages (receipts rnd arrivals server) = total_messages server + length arrivals
    \<and> (2 \<le> length arrivals \<longrightarrow>
          min_interval_ms (receipts rnd arrivals server)
            = Min (set (measured_ms rnd (map fst arrivals)))
        \<and> max_interval_ms (receipts rnd arrivals server)
            = Max (set (measured_ms rnd (map fst arrivals))))"
  using pos ne
proof (induction arrivals rule: rev_induct)
  case Nil
  then show ?case by simp
next
  case (snoc x xs)
  obtain t n where x: "x = (t, n)" by (cases x)
  show ?case
  proof (cases "xs = []")
    case True
    then show ?thesis
      using init record_metrics_first [OF init(1), of rnd t n]
      by (simp add: x receipts_def measured_ms_def running_sum_def)
  next
    case False
    define s where "s = receipts rnd xs server"
    define ts where "ts = map fst xs"
    define d where "d = d_mul rnd (d_sub rnd t (last ts)) 1000"
    have IH: "last_message_time s = last ts" "interval_count s = length xs - 1"
      "total_interval_ms s = running_sum rnd (measured_ms rnd ts)"
      "total_messages s = total_messages server + length xs"
      "2 \<le> length xs \<Longrightarrow> min_interval_ms s = Min (set (measured_ms rnd ts))"
      "2 \<le> length xs \<Longrightarrow> max_interval_ms s = Max (set (measured_ms rnd ts))"
      using snoc.IH snoc.prems False by (simp_all add: s_def ts_def)
    have tsne: "ts \<noteq> []" using False by (simp add: ts_def)
    have lastpos: "0 < last_message_time s"
      using snoc.prems False by (simp add: IH(1) ts_def last_map)
    have d: "d = d_mul rnd (d_sub rnd t (last_message_time s)) 1000" by (simp add: d_def IH(1))
    note step = record_metrics_next [OF lastpos d, of n]
    have run: "receipts rnd (xs @ [x]) server = record_metrics rnd t n s"
      by (simp add: x receipts_snoc s_def)
    have tss: "map fst (xs @ [x]) = ts @ [t]" by (simp add: x ts_def)
    have iv: "measured_ms rnd (ts @ [t]) = measured_ms rnd ts @ [d]"
      using measured_ms_snoc [OF tsne, of rnd t] by (simp add: d_def)
    have len: "length (xs @ [x]) - 1 = length xs - 1 + 1" "xs \<noteq> []"
      using False by (cases xs; simp)+
    show ?thesis
    proof (cases "2 \<le> length xs")
      case True
      then have ine: "measured_ms rnd ts \<noteq> []"
        using length_measured_ms [of rnd ts]
        by (cases "measured_ms rnd ts") (simp_all add: ts_def)
      have cnt: "interval_count s \<noteq> 0" using IH(2) True by simp
      have mn: "Min (set (measured_ms rnd ts @ [d])) = min d (Min (set (measured_ms rnd ts)))"
        using ine by (simp add: Min_insert)
      have mx: "Max (set (measured_ms rnd ts @ [d])) = max d (Max (set (measured_ms rnd ts)))"
        using ine by (simp add: Max_insert)
      have "min_interval_ms (record_metrics rnd t n s) = min d (Min (set (measured_ms rnd ts)))"
        using step(5) cnt IH(5) [OF True] by (simp add: min_def)
      moreover have
        "max_interval_ms (record_metrics rnd t n s) = max d (Max (set (measured_ms rnd ts)))"
        using step(6) cnt IH(6) [OF True] by (simp add: max_def)
      ultimately show ?thesis
        unfolding run tss iv mn mx running_sum_snoc
        using step(1-4) IH(2-4) len by simp
    next
      case short: False
      moreover have "length xs \<noteq> 0" using len(2) by simp
      ultimately have one: "length xs = 1" by arith
      then have ie: "measured_ms rnd ts = []"
        using length_measured_ms [of rnd ts] by (simp add: ts_def)
      have c0: "interval_count s = 0" using IH(2) one by simp
      show ?thesis
        unfolding run tss iv ie
        using step IH(3,4) one c0 ie by (simp add: running_sum_def)
    qed
  qed
qed

lemma server_init_metrics:
  assumes "server_init rnd mode0 address0 tls0 strdup_ok ctx tv0 = (0, server)"
  shows "last_message_time server = 0" "interval_count server = 0"
    "total_interval_ms server = 0" "total_messages server = 0"
  using assms
  by (auto simp: server_init_def zero_Server_def Let_def split: if_splits option.splits)

lemma server_get_metrics_all:
  "o_total_messages (server_get_metrics rnd (Some s) all_ptrs tv) = Some (total_messages s)"
  "o_avg_latency_ms (server_get_metrics rnd (Some s) all_ptrs tv)
     = Some (if interval_count s > 0
             then d_div rnd (total_interval_ms s) (d_of_nat rnd (interval_count s)) else 0)"
  "o_min_latency_ms (server_get_metrics rnd (Some s) all_ptrs tv)
     = Some (if interval_count s > 0 then min_interval_ms s else 0)"
  "o_max_latency_ms (server_get_metrics rnd (Some s) all_ptrs tv)
     = Some (if interval_count s > 0 then max_interval_ms s else 0)"
  by (simp_all add: server_get_metrics_def all_ptrs_def Let_def)

text \<open>Where no operation rounds, the floating-point reference arithmetic is the exact
  one.\<close>

lemma measured_ms_no_rounding: "measured_ms no_rounding ts = intervals_ms ts"
  by (simp add: measured_ms_def intervals_ms_def d_mul_def d_sub_def no_rounding_def)

lemma running_sum_no_rounding: "running_sum no_rounding ds = sum_list ds"
  by (induction ds rule: rev_induct)
    (simp_all add: running_sum_def d_add_def no_rounding_def)

text \<open>C9 (as amended). A server set up by \<open>server_init\<close> processes \<open>n\<close> message arrivals
  with the positive timestamps \<open>t\<^sub>1, \<dots>, t\<^sub>n\<close> (the code keeps the stored time 0 for "no
  message yet"). Then \<open>interval_count\<close> is \<open>n - 1\<close> (0 for \<open>n \<le> 1\<close>); the measured intervals
  are the consecutive differences in milliseconds as floating-point arithmetic computes
  them (subtraction and multiplication rounded); \<open>server_get_metrics\<close> reports as average
  their running floating-point sum divided by \<open>n - 1\<close> (each sum, the conversion of
  \<open>n - 1\<close> and the quotient rounded), as minimum and maximum the least and the greatest
  of them, and 0 for all three when no interval was measured. This holds for every
  rounding; the timestamps need not be sorted.\<close>

theorem metrics_match_measured_intervals:
  assumes "server_init rnd0 mode0 address0 tls0 strdup_ok ctx tv0 = (0, server)"
    and "\<forall>t \<in> set (map fst arrivals). 0 < t"
  shows "interval_count (receipts rnd arrivals server) = length arrivals - 1
       \<and> o_total_messages (server_get_metrics rnd (Some (receipts rnd arrivals server)) all_ptrs tv)
           = Some (length arrivals)
       \<and> o_avg_latency_ms (server_get_metrics rnd (Some (receipts rnd arrivals server)) all_ptrs tv)
           = Some (if length arrivals \<le> 1 then 0
                   else d_div rnd (running_sum rnd (measured_ms rnd (map fst arrivals)))
                          (d_of_nat rnd (length arrivals - 1)))
       \<and> o_min_latency_ms (server_get_metrics rnd (Some (receipts rnd arrivals server)) all_ptrs tv)
           = Some (if length arrivals \<le> 1 then 0
                   else Min (set (measured_ms rnd (map fst arrivals))))
       \<and> o_max_latency_ms (server_get_metrics rnd (Some (receipts rnd arrivals server)) all_ptrs tv)
           = Some (if length arrivals \<le> 1 then 0
                   else Max (set (measured_ms rnd (map fst arrivals))))"
proof (cases "arrivals = []")
  case True
  then show ?thesis
    using server_init_metrics [OF assms(1)]
    by (simp add: receipts_def server_get_metrics_all)
next
  case False
  note init = server_init_metrics [OF assms(1)]
  note inv = receipts_invariant [OF init(1-3) assms(2) False, of rnd]
  show ?thesis
  proof (cases "2 \<le> length arrivals")
    case True
    with inv show ?thesis
      by (simp add: server_get_metrics_all init(4))
  next
    case False
    with inv show ?thesis
      by (simp add: server_get_metrics_all init(4))
  qed
qed

lemma started_server_init:
  "server_init no_rounding SOCKET_MODE_UNIX ''/tmp/ipc.sock'' 0 True None
     \<lparr>tv_sec = 50, tv_usec = 0\<rparr> = (0, started_server)"
  by (simp add: started_server_def server_init_def)

theorem metrics_match_measured_intervals_witness:
  "measured_ms no_rounding (map fst three_arrivals) = [500, 1500]
   \<and> interval_count (receipts no_rounding three_arrivals started_server) = 2
   \<and> o_avg_latency_ms (server_get_metrics no_rounding
        (Some (receipts no_rounding three_arrivals started_server))
        all_ptrs \<lparr>tv_sec = 200, tv_usec = 0\<rparr>) = Some 1000
   \<and> o_min_latency_ms (server_get_metrics no_rounding
        (Some (receipts no_rounding three_arrivals started_server))
        all_ptrs \<lparr>tv_sec = 200, tv_usec = 0\<rparr>) = Some 500
   \<and> o_max_latency_ms (server_get_metrics no_rounding
        (Some (receipts no_rounding three_arrivals started_server))
        all_ptrs \<lparr>tv_sec = 200, tv_usec = 0\<rparr>) = Some 1500"
proof -
  have p: "\<forall>t \<in> set (map fst three_arrivals). 0 < t"
    by (simp add: three_arrivals_def)
  have iv: "measured_ms no_rounding (map fst three_arrivals) = [500, 1500]"
    by (simp add: measured_ms_no_rounding intervals_ms_def three_arrivals_def)
  have l: "length three_arrivals = 3" by (simp add: three_arrivals_def)
  from metrics_match_measured_intervals
    [OF started_server_init p, of no_rounding "\<lparr>tv_sec = 200, tv_usec = 0\<rparr>"]
  show ?thesis
    by (simp add: iv l running_sum_def d_add_def d_div_def d_of_nat_def no_rounding_def)
qed

text \<open>On a run without rounding the reported figures are those of the exact reference
  arithmetic: the sum of the consecutive differences over their number, and the least
  and the greatest difference.\<close>

lemma metrics_exact_without_rounding:
  assumes "server_init rnd0 mode0 address0 tls0 strdup_ok ctx tv0 = (0, server)"
    and "\<forall>t \<in> set (map fst arrivals). 0 < t"
    and "2 \<le> length arrivals"
  shows "o_avg_latency_ms (server_get_metrics no_rounding
             (Some (receipts no_rounding arrivals server)) all_ptrs tv)
           = Some (sum_list (intervals_ms (map fst arrivals)) / real (length arrivals - 1))"
    and "o_min_latency_ms (server_get_metrics no_rounding
             (Some (receipts no_rounding arrivals server)) all_ptrs tv)
           = Some (Min (set (intervals_ms (map fst arrivals))))"
    and "o_max_latency_ms (server_get_metrics no_rounding
             (Some (receipts no_rounding arrivals server)) all_ptrs tv)
           = Some (Max (set (intervals_ms (map fst arrivals))))"
proof -
  have ne: "arrivals \<noteq> []" using assms(3) by auto
  note init = server_init_metrics [OF assms(1)]
  note inv = receipts_invariant [OF init(1-3) assms(2) ne, of no_rounding]
  have c: "interval_count (receipts no_rounding arrivals server) = length arrivals - 1"
    using inv by simp
  have pos: "0 < length arrivals - 1" using assms(3) by simp
  show "o_avg_latency_ms (server_get_metrics no_rounding
             (Some (receipts no_rounding arrivals server)) all_ptrs tv)
           = Some (sum_list (intervals_ms (map fst arrivals)) / real (length arrivals - 1))"
    using inv pos
    by (simp add: server_get_metrics_all c measured_ms_no_rounding running_sum_no_rounding
        d_div_def d_of_nat_def no_rounding_def)
  show "o_min_latency_ms (server_get_metrics no_rounding
             (Some (receipts no_rounding arrivals server)) all_ptrs tv)
           = Some (Min (set (intervals_ms (map fst arrivals))))"
    using inv pos assms(3) by (simp add: server_get_metrics_all c measured_ms_no_rounding)
  show "o_max_latency_ms (server_get_metrics no_rounding
             (Some (receipts no_rounding arrivals server)) all_ptrs tv)
           = Some (Max (set (intervals_ms (map fst arrivals))))"
    using inv pos assms(3) by (simp add: server_get_metrics_all c measured_ms_no_rounding)
qed

text \<open>The claim as stated fails at a timestamp of 0. Of three arrivals stamped 0, 1 and 3
  the consecutive differences are 1000 and 2000 milliseconds: two intervals, with the
  average 1500 and the minimum 1000. The code takes the stored time 0 after the first
  arrival for "no message yet" and measures the second interval only: it records one
  interval and reports 2000 as average, minimum and maximum.\<close>

theorem arrival_stamped_zero_counterexample:
  "length epoch_arrivals - 1 = 2
   \<and> intervals_ms (map fst epoch_arrivals) = [1000, 2000]
   \<and> sum_list (intervals_ms (map fst epoch_arrivals)) / real (length epoch_arrivals - 1) = 1500
   \<and> interval_count (receipts no_rounding epoch_arrivals started_server) = 1
   \<and> o_avg_latency_ms (server_get_metrics no_rounding
        (Some (receipts no_rounding epoch_arrivals started_server))
        all_ptrs \<lparr>tv_sec = 200, tv_usec = 0\<rparr>) = Some 2000
   \<and> o_min_latency_ms (server_get_metrics no_rounding
        (Some (receipts no_rounding epoch_arrivals started_server))
        all_ptrs \<lparr>tv_sec = 200, tv_usec = 0\<rparr>) = Some 2000
   \<and> o_max_latency_ms (server_get_metrics no_rounding
        (Some (receipts no_rounding epoch_arrivals started_server))
        all_ptrs \<lparr>tv_sec = 200, tv_usec = 0\<rparr>) = Some 2000"
proof -
  have iv: "intervals_ms (map fst epoch_arrivals) = [1000, 2000]"
    by (simp add: intervals_ms_def epoch_arrivals_def)
  have s0: "last_message_time started_server = 0" "interval_count started_server = 0"
    "total_interval_ms started_server = 0"
    by (simp_all add: started_server_def server_init_def zero_Server_def)
  define s1 where "s1 = record_metrics no_rounding 0 1 started_server"
  have s1: "last_message_time s1 = 0" "interval_count s1 = 0" "total_interval_ms s1 = 0"
    using record_metrics_first [OF s0(1), of no_rounding 0 1] s0 by (simp_all add: s1_def)
  define s2 where "s2 = record_metrics no_rounding 1 1 s1"
  have s2: "last_message_time s2 = 1" "interval_count s2 = 0" "total_interval_ms s2 = 0"
    using record_metrics_first [OF s1(1), of no_rounding 1 1] s1 by (simp_all add: s2_def)
  define s3 where "s3 = record_metrics no_rounding 3 1 s2"
  have lp: "0 < last_message_time s2" by (simp add: s2)
  have d: "(2000 :: real) = d_mul no_rounding (d_sub no_rounding 3 (last_message_time s2)) 1000"
    by (simp add: s2 d_mul_def d_sub_def no_rounding_def)
  have s3: "interval_count s3 = 1" "total_interval_ms s3 = 2000" "min_interval_ms s3 = 2000"
    "max_interval_ms s3 = 2000"
    using record_metrics_next [OF lp d, of 1] s2
    by (simp_all add: s3_def d_add_def no_rounding_def)
  have run: "receipts no_rounding epoch_arrivals started_server = s3"
    by (simp add: receipts_def epoch_arrivals_def s1_def s2_def s3_def)
  have l: "length epoch_arrivals - 1 = 2"
    by (simp add: epoch_arrivals_def)
  have av: "sum_list (intervals_ms (map fst epoch_arrivals)) / real (length epoch_arrivals - 1)
      = 1500"
    unfolding iv l by simp
  show ?thesis
    unfolding run iv l
    using av by (simp add: iv l s3 server_get_metrics_all d_div_def d_of_nat_def no_rounding_def)
qed

section \<open>The event loop\<close>

lemma add_client_alloc_failure:
  assumes "table_alloc_fails server w"
  shows "add_client new_fd new_ssl server w
           = (server, emit EvLogError (w\<lparr>w_nallocs := Suc (w_nallocs w)\<rparr>))"
  using assms by (simp add: add_client_def table_alloc_fails_def sys_malloc_def Let_def)

lemma event_loop_body_pollfd_failure:
  assumes "pollfd_alloc_fails pollfd_capacity server w"
  shows "event_loop_body handler pollfd_capacity server w
           = Break server (emit EvLogError (w\<lparr>w_nallocs := Suc (w_nallocs w)\<rparr>))"
  using assms
  by (simp add: event_loop_body_def pollfd_alloc_fails_def sys_malloc_def Let_def)

lemma event_loop_body_Break:
  assumes "event_loop_body handler pollfd_capacity server w = Break server' w'"
  shows "pollfd_alloc_fails pollfd_capacity server w \<or> poll_fails w"
  using assms
  by (auto simp: event_loop_body_def pollfd_alloc_fails_def poll_fails_def sys_malloc_def
      sys_poll_def Let_def split: if_splits prod.splits option.splits poll_result.splits)

text \<open>C7 (as amended). An allocation failure while growing the poll array is fatal: the
  loop stops at once, whatever bound on its iterations, with the server as it was. An
  allocation failure while growing the client connection table is not: \<open>add_client\<close> logs
  the error and returns with the server unchanged, the new connection is not added, and
  the pass through the loop body does not leave the loop; the body leaves the loop only
  when the poll array cannot grow or \<open>poll\<close> fails with an error other than \<open>EINTR\<close>.\<close>

theorem allocation_failure_in_event_loop:
  "(running server \<noteq> 0 \<and> pollfd_alloc_fails pollfd_capacity server w \<longrightarrow>
      run_event_loop (Suc n) handler pollfd_capacity server w
        = Some (server, emit EvLogError (w\<lparr>w_nallocs := Suc (w_nallocs w)\<rparr>)))
   \<and> (table_alloc_fails server w \<longrightarrow>
        add_client new_fd new_ssl server w
          = (server, emit EvLogError (w\<lparr>w_nallocs := Suc (w_nallocs w)\<rparr>)))
   \<and> (event_loop_body handler pollfd_capacity server w = Break server' w' \<longrightarrow>
        pollfd_alloc_fails pollfd_capacity server w \<or> poll_fails w)"
  using add_client_alloc_failure [of server w new_fd new_ssl]
    event_loop_body_pollfd_failure [of pollfd_capacity server w handler]
    event_loop_body_Break [of handler pollfd_capacity server w server' w']
  by simp

lemma no_memory_facts:
  "running listening_server \<noteq> 0" "pollfd_alloc_fails 0 listening_server no_memory_world"
  "table_alloc_fails listening_server no_memory_world"
  by (simp_all add: pollfd_alloc_fails_def table_alloc_fails_def listening_server_def
      started_server_def server_init_def zero_Server_def no_memory_world_def)

theorem allocation_failure_in_event_loop_witness:
  "running listening_server \<noteq> 0
   \<and> pollfd_alloc_fails 0 listening_server no_memory_world
   \<and> run_event_loop (Suc 0) False 0 listening_server no_memory_world
       = Some (listening_server, emit EvLogError (no_memory_world\<lparr>w_nallocs := 1\<rparr>))
   \<and> table_alloc_fails listening_server no_memory_world
   \<and> add_client 7 None listening_server no_memory_world
       = (listening_server, emit EvLogError (no_memory_world\<lparr>w_nallocs := 1\<rparr>))
   \<and> event_loop_body False 0 listening_server no_memory_world
       = Break listening_server (emit EvLogError (no_memory_world\<lparr>w_nallocs := 1\<rparr>))"
proof -
  have n: "w_nallocs no_memory_world = 0"
    by (simp add: no_memory_world_def hi_frame_world_def)
  have b: "event_loop_body False 0 listening_server no_memory_world
      = Break listening_server (emit EvLogError (no_memory_world\<lparr>w_nallocs := 1\<rparr>))"
    using event_loop_body_pollfd_failure [OF no_memory_facts(2), of False] by (simp add: n)
  from allocation_failure_in_event_loop [of listening_server 0 no_memory_world 0 False 7 None
      listening_server "emit EvLogError (no_memory_world\<lparr>w_nallocs := 1\<rparr>)"]
  show ?thesis using no_memory_facts b by (simp add: n)
qed

text \<open>The claim as stated fails for the client table. The poll array is allocated, a
  connection is accepted, the allocation for the client table is refused: the loop logs
  the error and polls again, twice, until the stop request ends it.\<close>

theorem table_allocation_failure_counterexample:
  "\<not> w_allocs table_full_world 1 (of_nat (8 * sizeof_ClientConnection))
   \<and> map_option (w_trace \<circ> snd)
       (run_event_loop (Suc (Suc (Suc (Suc 0)))) False 0 listening_server table_full_world)
       = Some [EvPoll [3], EvAccept 3, EvLogError, EvPoll [3], EvPoll [3]]
   \<and> map_option (client_count \<circ> fst)
       (run_event_loop (Suc (Suc (Suc (Suc 0)))) False 0 listening_server table_full_world)
       = Some 0"
  by (simp add: event_loop_body_def sys_malloc_def sys_poll_def emit_def Let_def
      accept_new_connection_def add_client_def client_loop.simps server_stop_def
      listening_server_def started_server_def server_init_def zero_Server_def
      table_full_world_def hi_frame_world_def POLLIN_def sizeof_pollfd_def
      sizeof_ClientConnection_def)

declare connect_loop.simps [simp del]

section \<open>The array invariant holds in every state of the server\<close>

lemma server_init_wf:
  "server_wf (snd (server_init rnd mode0 address0 tls0 strdup_ok ctx tv))"
  by (simp add: server_init_def server_wf_def zero_Server_def Let_def split: option.splits)

lemma record_metrics_wf: "server_wf (record_metrics rnd now n server) = server_wf server"
  by (simp add: server_wf_def record_metrics_table)

lemma handle_client_message_wf:
  assumes "server_wf server"
  shows "server_wf (fst (handle_client_message client_index handler server w))"
  using assms remove_client_wf
  by (simp add: handle_client_message_def Let_def record_metrics_wf split: prod.splits)

lemma accept_new_connection_wf:
  assumes "server_wf server"
  shows "server_wf (fst (accept_new_connection server w))"
  using assms add_client_wf
  by (simp add: accept_new_connection_def Let_def split: option.splits)

lemma client_loop_wf:
  assumes "server_wf server"
  shows "server_wf (fst (client_loop i pollfd_count revents handler server w))"
  using assms
proof (induction i pollfd_count revents handler server w rule: client_loop.induct)
  case (1 i pollfd_count revents handler server w)
  show ?case
  proof (cases "i < pollfd_count")
    case False
    then show ?thesis using "1.prems" by (subst client_loop.simps) simp
  next
    case True
    show ?thesis
    proof (cases "i - 1 \<ge> client_count server")
      case skip: True
      from "1.IH"(1) [OF True refl skip "1.prems"] True skip
      show ?thesis by (subst client_loop.simps) simp
    next
      case live: False
      define sw1 where "sw1 = (if revents i AND POLLIN \<noteq> 0
          then handle_client_message (i - 1) handler server w else (server, w))"
      have wf1: "server_wf (fst sw1)"
        using "1.prems" handle_client_message_wf by (simp add: sw1_def)
      show ?thesis
      proof (cases "revents i AND (POLLHUP OR POLLERR) \<noteq> 0")
        case hup: True
        define sw2 where "sw2 = remove_client (i - 1) (fst sw1) (snd sw1)"
        have wf2: "server_wf (fst sw2)"
          using wf1 remove_client_wf by (simp add: sw2_def)
        have eq: "client_loop i pollfd_count revents handler server w
            = client_loop ((i - 1) + 1) (pollfd_count - 1) revents handler (fst sw2) (snd sw2)"
          using True live hup
          by (subst client_loop.simps) (simp add: sw1_def sw2_def Let_def)
        from "1.IH"(2) [OF True refl live sw1_def hup sw2_def wf2]
        show ?thesis by (simp only: eq)
      next
        case nohup: False
        have eq: "client_loop i pollfd_count revents handler server w
            = client_loop (i + 1) pollfd_count revents handler (fst sw1) (snd sw1)"
          using True live nohup
          by (subst client_loop.simps) (simp add: sw1_def Let_def)
        from "1.IH"(3) [OF True refl live sw1_def nohup wf1]
        show ?thesis by (simp only: eq)
      qed
    qed
  qed
qed

lemma event_loop_body_wf:
  assumes "server_wf server"
  shows "case event_loop_body handler pollfd_capacity server w of
           Break s' w' \<Rightarrow> server_wf s' | Continue cap s' w' \<Rightarrow> server_wf s'"
proof -
  have stop: "server_wf (server_stop server)"
    using assms by (simp add: server_wf_def server_stop_def)
  show ?thesis
    using assms stop accept_new_connection_wf client_loop_wf
    by (simp add: event_loop_body_def Let_def split: prod.splits option.splits poll_result.splits)
qed

lemma run_event_loop_wf:
  assumes "server_wf server"
    and "run_event_loop n handler pollfd_capacity server w = Some (server', w')"
  shows "server_wf server'"
  using assms
proof (induction n arbitrary: pollfd_capacity server w)
  case 0
  then show ?case by simp
next
  case (Suc n)
  note body = event_loop_body_wf [OF Suc.prems(1), of handler pollfd_capacity w]
  show ?case
  proof (cases "running server = 0")
    case True
    with Suc.prems show ?thesis by simp
  next
    case False
    show ?thesis
    proof (cases "event_loop_body handler pollfd_capacity server w")
      case (Break s1 w1)
      with body Suc.prems(2) False show ?thesis by simp
    next
      case (Continue cap s1 w1)
      with body have "server_wf s1" by simp
      from Suc.IH [OF this] Suc.prems(2) False Continue show ?thesis by simp
    qed
  qed
qed

section \<open>Connecting with retries\<close>

lemma sleeps_of_append [simp]: "sleeps_of (xs @ ys) = sleeps_of xs @ sleeps_of ys"
  by (simp add: sleeps_of_def)

lemma attempts_of_append [simp]: "attempts_of (xs @ ys) = attempts_of xs + attempts_of ys"
  by (simp add: attempts_of_def)

lemma schedule_append [simp]: "schedule (xs @ ys) = schedule xs @ schedule ys"
  by (simp add: schedule_def)

lemma connect_attempt_fails:
  assumes "attempt_fails c a"
  shows "\<exists>c' evs. connect_attempt k a c tr = backoff_or_fail k c' (tr @ evs)
    \<and> cl_mode c' = cl_mode c \<and> cl_enable_tls c' = cl_enable_tls c
    \<and> evs \<noteq> [] \<and> sleep_seconds (last evs) = [] \<and> sleeps_of evs = [] \<and> attempts_of evs = 1
    \<and> schedule evs = [Attempt]"
proof (cases "cl_mode c = SOCKET_MODE_UNIX")
  case unix: True
  show ?thesis
  proof (cases "a_connect a < 0")
    case True
    then have "connect_attempt k a c tr = backoff_or_fail k (c\<lparr>cl_fd := a_connect a\<rparr>) (tr @ [CeConnectUnix])"
      using unix by (simp add: connect_attempt_def)
    then show ?thesis
      by (intro exI [of _ "c\<lparr>cl_fd := a_connect a\<rparr>"] exI [of _ "[CeConnectUnix]"])
        (simp add: sleeps_of_def attempts_of_def schedule_def)
  next
    case conn: False
    show ?thesis
    proof (cases "a_timeout a < 0")
      case True
      then have "connect_attempt k a c tr = backoff_or_fail k (c\<lparr>cl_fd := - 1\<rparr>)
          (tr @ [CeConnectUnix, CeSetTimeout (a_connect a) (cl_timeout_sec c), CeClose (a_connect a)])"
        using unix conn by (simp add: connect_attempt_def)
      then show ?thesis
        by (intro exI [of _ "c\<lparr>cl_fd := - 1\<rparr>"]
            exI [of _ "[CeConnectUnix, CeSetTimeout (a_connect a) (cl_timeout_sec c), CeClose (a_connect a)]"])
          (simp add: sleeps_of_def attempts_of_def schedule_def)
    next
      case False
      with assms unix conn have tls: "cl_enable_tls c \<noteq> 0" "a_tls a = None"
        by (auto simp: attempt_fails_def)
      then have "connect_attempt k a c tr = backoff_or_fail k (c\<lparr>cl_ssl := None, cl_fd := - 1\<rparr>)
          (tr @ [CeConnectUnix, CeSetTimeout (a_connect a) (cl_timeout_sec c),
                 CeConnectTls (a_connect a), CeClose (a_connect a)])"
        using unix conn False by (simp add: connect_attempt_def Let_def)
      then show ?thesis
        by (intro exI [of _ "c\<lparr>cl_ssl := None, cl_fd := - 1\<rparr>"]
            exI [of _ "[CeConnectUnix, CeSetTimeout (a_connect a) (cl_timeout_sec c),
                 CeConnectTls (a_connect a), CeClose (a_connect a)]"])
          (simp add: sleeps_of_def attempts_of_def schedule_def)
    qed
  qed
next
  case inet: False
  show ?thesis
  proof (cases "a_parse_ok a")
    case False
    then have "connect_attempt k a c tr = backoff_or_fail k c (tr @ [CeParseAddress])"
      using inet by (simp add: connect_attempt_def)
    then show ?thesis
      by (intro exI [of _ c] exI [of _ "[CeParseAddress]"]) (simp add: sleeps_of_def attempts_of_def schedule_def)
  next
    case parsed: True
    show ?thesis
    proof (cases "a_connect a < 0")
      case True
      then have "connect_attempt k a c tr = backoff_or_fail k (c\<lparr>cl_fd := a_connect a\<rparr>)
          (tr @ [CeParseAddress, CeConnectInet])"
        using inet parsed by (simp add: connect_attempt_def)
      then show ?thesis
        by (intro exI [of _ "c\<lparr>cl_fd := a_connect a\<rparr>"] exI [of _ "[CeParseAddress, CeConnectInet]"])
          (simp add: sleeps_of_def attempts_of_def schedule_def)
    next
      case conn: False
      show ?thesis
      proof (cases "a_timeout a < 0")
        case True
        then have "connect_attempt k a c tr = backoff_or_fail k (c\<lparr>cl_fd := - 1\<rparr>)
            (tr @ [CeParseAddress, CeConnectInet, CeSetTimeout (a_connect a) (cl_timeout_sec c),
                   CeClose (a_connect a)])"
          using inet parsed conn by (simp add: connect_attempt_def)
        then show ?thesis
          by (intro exI [of _ "c\<lparr>cl_fd := - 1\<rparr>"]
              exI [of _ "[CeParseAddress, CeConnectInet,
                   CeSetTimeout (a_connect a) (cl_timeout_sec c), CeClose (a_connect a)]"])
            (simp add: sleeps_of_def attempts_of_def schedule_def)
      next
        case False
        with assms inet parsed conn have tls: "cl_enable_tls c \<noteq> 0" "a_tls a = None"
          by (auto simp: attempt_fails_def)
        then have "connect_attempt k a c tr
            = backoff_or_fail k (c\<lparr>cl_ssl := None, cl_fd := - 1\<rparr>)
                (tr @ [CeParseAddress, CeConnectInet, CeSetTimeout (a_connect a) (cl_timeout_sec c),
                       CeConnectTls (a_connect a), CeClose (a_connect a)])"
          using inet parsed conn False by (simp add: connect_attempt_def Let_def)
        then show ?thesis
          by (intro exI [of _ "c\<lparr>cl_ssl := None, cl_fd := - 1\<rparr>"]
              exI [of _ "[CeParseAddress, CeConnectInet,
                   CeSetTimeout (a_connect a) (cl_timeout_sec c),
                   CeConnectTls (a_connect a), CeClose (a_connect a)]"])
            (simp add: sleeps_of_def attempts_of_def schedule_def)
      qed
    qed
  qed
qed

lemma attempt_fails_same_config:
  "cl_mode c' = cl_mode c \<Longrightarrow> cl_enable_tls c' = cl_enable_tls c \<Longrightarrow>
   attempt_fails c' a = attempt_fails c a"
  by (simp add: attempt_fails_def)

lemma connect_loop_all_fail:
  assumes "\<forall>j < max_retries. attempt_fails c (env j)" and "k < max_retries"
  shows "\<exists>c' evs. connect_loop k env c tr = (- 1, c', tr @ evs)
    \<and> sleeps_of evs = map (\<lambda>j. 2 ^ j) [k..<max_retries - 1]
    \<and> attempts_of evs = max_retries - k
    \<and> schedule evs
        = concat (map (\<lambda>j. [Attempt, Delay (2 ^ j)]) [k..<max_retries - 1]) @ [Attempt]
    \<and> evs \<noteq> [] \<and> sleep_seconds (last evs) = []"
  using assms
proof (induction "max_retries - 1 - k" arbitrary: k c tr)
  case 0
  then have k: "k = max_retries - 1" by simp
  from "0.prems" have "attempt_fails c (env k)" by simp
  from connect_attempt_fails [OF this, of k tr]
  obtain c' evs where a: "connect_attempt k (env k) c tr = backoff_or_fail k c' (tr @ evs)"
    "evs \<noteq> []" "sleep_seconds (last evs) = []" "sleeps_of evs = []" "attempts_of evs = 1"
    "schedule evs = [Attempt]"
    by blast
  have "connect_loop k env c tr = (- 1, c', tr @ evs)"
    using "0.prems"(2) a(1) k by (subst connect_loop.simps) (simp add: backoff_or_fail_def)
  with a k show ?case by (simp add: max_retries_def)
next
  case (Suc n)
  then have k: "k < max_retries - 1" by simp
  from Suc.prems have "attempt_fails c (env k)" by simp
  from connect_attempt_fails [OF this, of k tr]
  obtain c' evs where a: "connect_attempt k (env k) c tr = backoff_or_fail k c' (tr @ evs)"
    "cl_mode c' = cl_mode c" "cl_enable_tls c' = cl_enable_tls c"
    "evs \<noteq> []" "sleep_seconds (last evs) = []" "sleeps_of evs = []" "attempts_of evs = 1"
    "schedule evs = [Attempt]"
    by blast
  have fails': "\<forall>j < max_retries. attempt_fails c' (env j)"
    using Suc.prems(1) attempt_fails_same_config [OF a(2,3)] by simp
  have n: "n = max_retries - 1 - (k + 1)" using Suc.hyps(2) by simp
  have k1: "k + 1 < max_retries" using k by simp
  from Suc.hyps(1) [OF n fails' k1, of "tr @ evs @ [CeSleep (2 ^ k)]"]
  obtain c'' evs' where b:
    "connect_loop (k + 1) env c' (tr @ evs @ [CeSleep (2 ^ k)])
       = (- 1, c'', (tr @ evs @ [CeSleep (2 ^ k)]) @ evs')"
    "sleeps_of evs' = map (\<lambda>j. 2 ^ j) [k + 1..<max_retries - 1]"
    "attempts_of evs' = max_retries - (k + 1)"
    "evs' \<noteq> []" "sleep_seconds (last evs') = []"
    "schedule evs'
       = concat (map (\<lambda>j. [Attempt, Delay (2 ^ j)]) [k + 1..<max_retries - 1]) @ [Attempt]"
    by blast
  have run: "connect_loop k env c tr = (- 1, c'', tr @ (evs @ [CeSleep (2 ^ k)] @ evs'))"
    using Suc.prems(2) a(1) k b(1)
    by (subst connect_loop.simps) (simp add: backoff_or_fail_def)
  have sl: "sleeps_of (evs @ [CeSleep (2 ^ k)] @ evs') = map (\<lambda>j. 2 ^ j) [k..<max_retries - 1]"
    using a(6) b(2) k by (simp add: sleeps_of_def upt_conv_Cons)
  have at: "attempts_of (evs @ [CeSleep (2 ^ k)] @ evs') = max_retries - k"
    using a(7) b(3) k by (simp add: attempts_of_def)
  have sc: "schedule (evs @ [CeSleep (2 ^ k)] @ evs')
      = concat (map (\<lambda>j. [Attempt, Delay (2 ^ j)]) [k..<max_retries - 1]) @ [Attempt]"
    using a(8) b(6) k by (simp add: schedule_def upt_conv_Cons)
  show ?case
    using run sl at sc b(4,5)
    by (intro exI [of _ c''] exI [of _ "evs @ [CeSleep (2 ^ k)] @ evs'"]) simp
qed

text \<open>C5 (as amended). When every attempt of a call of \<open>client_connect\<close> fails, exactly 5
  attempts are made; after the failed attempt \<open>k\<close>, for \<open>k = 1, \<dots>, 4\<close>, and before the
  next attempt, the call sleeps \<open>2^(k-1)\<close> seconds, so the delays are 1, 2, 4 and 8
  seconds; nothing is slept after the fifth failed attempt, and the call returns \<open>-1\<close>.\<close>

theorem client_connect_all_attempts_fail:
  assumes "\<forall>k < max_retries. attempt_fails client (env k)"
  shows "\<exists>c' evs. client_connect (Some client) timeout_sec env [] = (- 1, Some c', evs)
       \<and> attempts_of evs = 5
       \<and> sleeps_of evs = [1, 2, 4, 8]
       \<and> schedule evs
           = [Attempt, Delay 1, Attempt, Delay 2, Attempt, Delay 4, Attempt, Delay 8, Attempt]
       \<and> evs \<noteq> [] \<and> sleep_seconds (last evs) = []"
proof -
  let ?c = "client\<lparr>cl_timeout_sec := timeout_sec\<rparr>"
  have f: "\<forall>j < max_retries. attempt_fails ?c (env j)"
    using assms by (simp add: attempt_fails_def)
  have k: "0 < max_retries" by (simp add: max_retries_def)
  from connect_loop_all_fail [OF f k, of "[]"]
  obtain c' evs where r: "connect_loop 0 env ?c [] = (- 1, c', evs)"
    "sleeps_of evs = map (\<lambda>j. 2 ^ j) [0..<max_retries - 1]"
    "attempts_of evs = max_retries - 0" "evs \<noteq> []" "sleep_seconds (last evs) = []"
    "schedule evs
       = concat (map (\<lambda>j. [Attempt, Delay (2 ^ j)]) [0..<max_retries - 1]) @ [Attempt]"
    by auto
  have "map (\<lambda>j. (2 :: int) ^ j) [0..<max_retries - 1] = [1, 2, 4, 8]"
    "concat (map (\<lambda>j. [Attempt, Delay (2 ^ j)]) [0..<max_retries - 1]) @ [Attempt]
       = [Attempt, Delay 1, Attempt, Delay 2, Attempt, Delay 4, Attempt, Delay 8, Attempt]"
    by (simp_all add: max_retries_def upt_rec)
  with r show ?thesis
    by (intro exI [of _ c'] exI [of _ evs]) (simp add: client_connect_def max_retries_def)
qed

lemma refused_run:
  "client_connect (Some fresh_client) 5 refused []
     = (- 1, Some (fresh_client\<lparr>cl_timeout_sec := 5\<rparr>),
        [CeConnectUnix, CeSleep 1, CeConnectUnix, CeSleep 2, CeConnectUnix, CeSleep 4,
         CeConnectUnix, CeSleep 8, CeConnectUnix])"
  by (simp add: client_connect_def connect_loop.simps connect_attempt_def backoff_or_fail_def
      max_retries_def refused_def fresh_client_def client_init_def zero_Client_def Let_def)

theorem client_connect_all_attempts_fail_witness:
  "attempt_fails fresh_client (refused 0)
   \<and> attempt_fails fresh_client (refused 4)
   \<and> fst (client_connect (Some fresh_client) 5 refused []) = - 1
   \<and> attempts_of (snd (snd (client_connect (Some fresh_client) 5 refused []))) = 5
   \<and> sleeps_of (snd (snd (client_connect (Some fresh_client) 5 refused []))) = [1, 2, 4, 8]
   \<and> schedule (snd (snd (client_connect (Some fresh_client) 5 refused [])))
       = [Attempt, Delay 1, Attempt, Delay 2, Attempt, Delay 4, Attempt, Delay 8, Attempt]"
proof -
  have f: "\<forall>k < max_retries. attempt_fails fresh_client (refused k)"
    by (simp add: attempt_fails_def refused_def)
  from client_connect_all_attempts_fail [OF f, of 5]
  show ?thesis using f by (auto simp: max_retries_def)
qed

text \<open>The claim as stated lists a fifth delay of 16 seconds. Against a socket that refuses
  every connect, the call makes its five attempts and sleeps 1, 2, 4 and 8 seconds between
  them: 16 seconds are never slept.\<close>

theorem backoff_sixteen_counterexample:
  "fst (client_connect (Some fresh_client) 5 refused []) = - 1
   \<and> attempts_of (snd (snd (client_connect (Some fresh_client) 5 refused []))) = 5
   \<and> sleeps_of (snd (snd (client_connect (Some fresh_client) 5 refused []))) = [1, 2, 4, 8]
   \<and> sleeps_of (snd (snd (client_connect (Some fresh_client) 5 refused []))) \<noteq> [1, 2, 4, 8, 16]
   \<and> schedule (snd (snd (client_connect (Some fresh_client) 5 refused [])))
       = [Attempt, Delay 1, Attempt, Delay 2, Attempt, Delay 4, Attempt, Delay 8, Attempt]
   \<and> CeSleep 16 \<notin> set (snd (snd (client_connect (Some fresh_client) 5 refused [])))"
  by (simp add: refused_run sleeps_of_def attempts_of_def schedule_def)

section \<open>Disconnecting\<close>

lemma connect_socket_results:
  "- 1 \<le> connect_unix_socket sock connect_rc"
  "- 1 \<le> connect_inet_socket sock inet_aton_rc connect_rc"
  by (simp_all add: connect_unix_socket_def connect_inet_socket_def)

lemma client_init_wf:
  assumes "client_init mode0 address0 tls0 strdup_ok ctx = (0, c)"
  shows "client_wf c"
  using assms
  by (auto simp: client_init_def client_wf_def zero_Client_def Let_def
      split: if_splits option.splits)

lemma connect_attempt_wf:
  assumes "client_wf c" and "- 1 \<le> a_connect a"
  shows "case connect_attempt k a c tr of
           Connected c' t \<Rightarrow> client_wf c' | Again c' t \<Rightarrow> client_wf c' | GiveUp c' t \<Rightarrow> client_wf c'"
  using assms
  by (auto simp: connect_attempt_def backoff_or_fail_def client_wf_def Let_def
      split: if_splits option.splits)

lemma connect_loop_wf:
  assumes "client_wf c" and "connect_results_ok env"
  shows "client_wf (fst (snd (connect_loop k env c tr)))"
  using assms
proof (induction k env c tr rule: connect_loop.induct)
  case (1 retry_count env client tr)
  have a: "- 1 \<le> a_connect (env retry_count)"
    using "1.prems"(2) by (simp add: connect_results_ok_def)
  note w = connect_attempt_wf [OF "1.prems"(1) a, of retry_count tr]
  show ?case
  proof (cases "retry_count < max_retries")
    case False
    then show ?thesis using "1.prems" by (subst connect_loop.simps) simp
  next
    case True
    show ?thesis
    proof (cases "connect_attempt retry_count (env retry_count) client tr")
      case (Connected c' t)
      with w True show ?thesis by (subst connect_loop.simps) simp
    next
      case (GiveUp c' t)
      with w True show ?thesis by (subst connect_loop.simps) simp
    next
      case (Again c' t)
      with w have "client_wf c'" by simp
      from "1.IH" [OF True Again this "1.prems"(2)] Again True
      show ?thesis by (subst connect_loop.simps) simp
    qed
  qed
qed

lemma client_connect_wf:
  assumes "client_wf c" and "connect_results_ok env"
    and "client_connect (Some c) timeout_sec env tr = (rc, Some c', tr')"
  shows "client_wf c'"
proof -
  have "client_wf (c\<lparr>cl_timeout_sec := timeout_sec\<rparr>)"
    using assms(1) by (simp add: client_wf_def)
  from connect_loop_wf [OF this assms(2), of 0 tr] assms(3)
  show ?thesis by (auto simp: client_connect_def split: prod.splits)
qed

lemma client_disconnect_wf:
  assumes "client_wf c" and "client_disconnect (Some c) tr = (Some c', tr')"
  shows "client_wf c'"
  using assms
  by (auto simp: client_disconnect_def client_wf_def Let_def split: if_splits option.splits)

text \<open>C8. \<open>client_disconnect\<close> on a session that is not connected changes nothing: the
  session and the trace of calls stay as they are. On a connected session it closes the TLS
  session, if there is one, and the descriptor, if it is open, and leaves
  \<open>connected = 0\<close>, \<open>fd = -1\<close> and \<open>ssl = NULL\<close>. A second call after the first changes
  nothing.\<close>

theorem client_disconnect_idempotent:
  assumes "client_wf c"
  shows "(cl_connected c = 0 \<longrightarrow> client_disconnect (Some c) tr = (Some c, tr))
       \<and> (cl_connected c \<noteq> 0 \<longrightarrow>
            (\<exists>c'. fst (client_disconnect (Some c) tr) = Some c'
               \<and> cl_connected c' = 0 \<and> cl_fd c' = - 1 \<and> cl_ssl c' = None)
          \<and> snd (client_disconnect (Some c) tr)
              = tr @ (case cl_ssl c of Some s \<Rightarrow> [CeTlsClose s] | None \<Rightarrow> [])
                   @ (if 0 \<le> cl_fd c then [CeClose (cl_fd c)] else []))
       \<and> client_disconnect (fst (client_disconnect (Some c) tr))
            (snd (client_disconnect (Some c) tr))
           = client_disconnect (Some c) tr"
  using assms
  by (auto simp: client_disconnect_def client_wf_def Let_def split: if_splits option.splits)

theorem client_disconnect_idempotent_witness:
  "client_wf tls_session
   \<and> client_disconnect (Some tls_session) []
       = (Some (tls_session\<lparr>cl_ssl := None, cl_fd := - 1, cl_connected := 0\<rparr>),
          [CeTlsClose 9, CeClose 4])
   \<and> client_disconnect (Some (tls_session\<lparr>cl_ssl := None, cl_fd := - 1, cl_connected := 0\<rparr>))
        [CeTlsClose 9, CeClose 4]
       = (Some (tls_session\<lparr>cl_ssl := None, cl_fd := - 1, cl_connected := 0\<rparr>),
          [CeTlsClose 9, CeClose 4])"
proof -
  have wf: "client_wf tls_session" by (simp add: client_wf_def tls_session_def)
  have run: "client_disconnect (Some tls_session) []
       = (Some (tls_session\<lparr>cl_ssl := None, cl_fd := - 1, cl_connected := 0\<rparr>),
          [CeTlsClose 9, CeClose 4])"
    by (simp add: client_disconnect_def tls_session_def)
  have "client_disconnect (fst (client_disconnect (Some tls_session) []))
      (snd (client_disconnect (Some tls_session) [])) = client_disconnect (Some tls_session) []"
    by (rule client_disconnect_idempotent [OF wf, of "[]", THEN conjunct2, THEN conjunct2])
  then have "client_disconnect
      (Some (tls_session\<lparr>cl_ssl := None, cl_fd := - 1, cl_connected := 0\<rparr>))
      [CeTlsClose 9, CeClose 4]
    = (Some (tls_session\<lparr>cl_ssl := None, cl_fd := - 1, cl_connected := 0\<rparr>),
       [CeTlsClose 9, CeClose 4])"
    by (simp only: run fst_conv snd_conv)
  with run wf show ?thesis by (intro conjI)
qed

end
